theory Spec2Isabelle
  imports Complex_Main
begin

section \<open>Errors and one-dimensional arrays\<close>

text \<open>
  The two example scripts compute with one-dimensional numpy arrays of floats. The arrays
  are modelled as lists of reals, so every statement below is about exact arithmetic.
  Each Python exception that the modelled code can raise is a value of \<open>error\<close>, and a
  computation that may raise returns \<open>error + 'a\<close> with \<open>Inl\<close> for the exception.
\<close>

datatype error = KeyError | ValueError | ArgumentError

type_synonym ndarray = "real list"

definition bind_result :: "error + 'a \<Rightarrow> ('a \<Rightarrow> error + 'b) \<Rightarrow> error + 'b" where
  "bind_result r f = (case r of Inl e \<Rightarrow> Inl e | Inr x \<Rightarrow> f x)"

text \<open>\<open>np.zeros(n)\<close>: a negative dimension raises ValueError.\<close>

definition np_zeros :: "int \<Rightarrow> error + 'a::zero list" where
  "np_zeros n = (if n < 0 then Inl ValueError else Inr (replicate (nat n) 0))"

text \<open>\<open>np.arange(n, dtype=int)\<close>: the integers \<open>0, ..., n - 1\<close>, empty when \<open>n \<le> 0\<close>.\<close>

definition np_arange :: "int \<Rightarrow> int list" where
  "np_arange n = map int [0..<nat n]"

definition np_cos :: "ndarray \<Rightarrow> ndarray" where
  "np_cos a = map cos a"

definition np_sin :: "ndarray \<Rightarrow> ndarray" where
  "np_sin a = map sin a"

definition np_neg :: "ndarray \<Rightarrow> ndarray" where
  "np_neg a = map uminus a"

text \<open>
  Broadcasting of a one-dimensional array to shape \<open>(n,)\<close>: an array of that length is
  taken as it is, an array of length one is repeated, anything else raises ValueError.
\<close>

definition broadcast_to :: "nat \<Rightarrow> ndarray \<Rightarrow> error + ndarray" where
  "broadcast_to n a =
     (if length a = n then Inr a
      else case a of [x] \<Rightarrow> Inr (replicate n x) | _ \<Rightarrow> Inl ValueError)"

text \<open>The elementwise product \<open>a * b\<close> of two one-dimensional arrays, with broadcasting.\<close>

definition np_mul :: "ndarray \<Rightarrow> ndarray \<Rightarrow> error + ndarray" where
  "np_mul a b =
     (let n = (if length a = 1 then length b else length a) in
      bind_result (broadcast_to n a) (\<lambda>a'.
      bind_result (broadcast_to n b) (\<lambda>b'.
      Inr (map2 (*) a' b'))))"

section \<open>The brachistochrone ODE component\<close>

text \<open>
  The state seen by the methods of \<open>BrachistochroneODE\<close>: the option \<open>num_nodes\<close>, the
  input and output vectors (dictionaries from variable name to array), the declared
  partials (for each pair of output and input name, the row and column indices of the
  nonzero entries) and the Jacobian values (one array per declared pair, one value per
  declared row and column pair). A method takes the state and returns the updated state.
\<close>

record component =
  num_nodes :: int
  inputs :: "string \<rightharpoonup> ndarray"
  outputs :: "string \<rightharpoonup> ndarray"
  partials :: "string \<times> string \<rightharpoonup> int list \<times> int list"
  jacobian :: "string \<times> string \<rightharpoonup> ndarray"

text \<open>\<open>BrachistochroneODE(num_nodes=N)\<close>, before its setup.\<close>

definition BrachistochroneODE :: "int \<Rightarrow> component" where
  "BrachistochroneODE N =
     \<lparr>num_nodes = N, inputs = Map.empty, outputs = Map.empty,
      partials = Map.empty, jacobian = Map.empty\<rparr>"

definition add_input :: "component \<Rightarrow> string \<Rightarrow> ndarray \<Rightarrow> component" where
  "add_input self name val = self\<lparr>inputs := (inputs self)(name \<mapsto> val)\<rparr>"

definition add_output :: "component \<Rightarrow> string \<Rightarrow> ndarray \<Rightarrow> component" where
  "add_output self name val = self\<lparr>outputs := (outputs self)(name \<mapsto> val)\<rparr>"

text \<open>
  \<open>declare_partials(of, wrt, rows, cols)\<close> records the sparsity pattern of one block of
  the Jacobian; the two index arrays must have the same length.
\<close>

definition declare_partials ::
  "component \<Rightarrow> string \<Rightarrow> string \<Rightarrow> int list \<Rightarrow> int list \<Rightarrow> error + component" where
  "declare_partials self of_name wrt rows cols =
     (if length rows \<noteq> length cols then Inl ValueError
      else Inr (self\<lparr>partials := (partials self)((of_name, wrt) \<mapsto> (rows, cols))\<rparr>))"

definition ode_setup :: "component \<Rightarrow> error + component" where
  "ode_setup self =
     (let nn = num_nodes self in
      bind_result (np_zeros nn) (\<lambda>z1. let s1 = add_input self ''v'' z1 in
      let s2 = add_input s1 ''g'' [9.80665] in
      bind_result (np_zeros nn) (\<lambda>z2. let s3 = add_input s2 ''theta'' z2 in
      bind_result (np_zeros nn) (\<lambda>z3. let s4 = add_output s3 ''xdot'' z3 in
      bind_result (np_zeros nn) (\<lambda>z4. let s5 = add_output s4 ''ydot'' z4 in
      bind_result (np_zeros nn) (\<lambda>z5. let s6 = add_output s5 ''vdot'' z5 in
      let arange = np_arange (num_nodes self) in
      bind_result (np_zeros nn) (\<lambda>zi.
      bind_result (declare_partials s6 ''vdot'' ''g'' arange zi) (\<lambda>s7.
      bind_result (declare_partials s7 ''vdot'' ''theta'' arange arange) (\<lambda>s8.
      bind_result (declare_partials s8 ''xdot'' ''v'' arange arange) (\<lambda>s9.
      bind_result (declare_partials s9 ''xdot'' ''theta'' arange arange) (\<lambda>s10.
      bind_result (declare_partials s10 ''ydot'' ''v'' arange arange) (\<lambda>s11.
      declare_partials s11 ''ydot'' ''theta'' arange arange))))))))))))"

text \<open>\<open>inputs[name]\<close>: a missing name raises KeyError.\<close>

definition getitem :: "('k \<rightharpoonup> 'v) \<Rightarrow> 'k \<Rightarrow> error + 'v" where
  "getitem m k = (case m k of None \<Rightarrow> Inl KeyError | Some v \<Rightarrow> Inr v)"

text \<open>
  \<open>outputs[name] = val\<close>: the variable must have been added, and the value is broadcast
  to the variable's shape.
\<close>

definition set_output :: "component \<Rightarrow> string \<Rightarrow> ndarray \<Rightarrow> error + component" where
  "set_output s name val =
     bind_result (getitem (outputs s) name) (\<lambda>old.
     bind_result (broadcast_to (length old) val) (\<lambda>a.
     Inr (s\<lparr>outputs := (outputs s)(name \<mapsto> a)\<rparr>)))"

text \<open>
  \<open>jacobian[of, wrt] = val\<close>: the pair must have been declared, and the value is
  broadcast to one entry per declared row.
\<close>

definition set_jacobian :: "component \<Rightarrow> string \<times> string \<Rightarrow> ndarray \<Rightarrow> error + component" where
  "set_jacobian s key val =
     bind_result (getitem (partials s) key) (\<lambda>(rows, cols).
     bind_result (broadcast_to (length rows) val) (\<lambda>a.
     Inr (s\<lparr>jacobian := (jacobian s)(key \<mapsto> a)\<rparr>)))"

definition compute :: "component \<Rightarrow> error + component" where
  "compute s =
     bind_result (getitem (inputs s) ''theta'') (\<lambda>theta.
     let cos_theta = np_cos theta in
     let sin_theta = np_sin theta in
     bind_result (getitem (inputs s) ''g'') (\<lambda>g.
     bind_result (getitem (inputs s) ''v'') (\<lambda>v.
     bind_result (np_mul g cos_theta) (\<lambda>r1.
     bind_result (set_output s ''vdot'' r1) (\<lambda>s1.
     bind_result (np_mul v sin_theta) (\<lambda>r2.
     bind_result (set_output s1 ''xdot'' r2) (\<lambda>s2.
     bind_result (np_mul (np_neg v) cos_theta) (\<lambda>r3.
     set_output s2 ''ydot'' r3))))))))"

definition compute_partials :: "component \<Rightarrow> error + component" where
  "compute_partials s =
     bind_result (getitem (inputs s) ''theta'') (\<lambda>theta.
     let cos_theta = np_cos theta in
     let sin_theta = np_sin theta in
     bind_result (getitem (inputs s) ''g'') (\<lambda>g.
     bind_result (getitem (inputs s) ''v'') (\<lambda>v.
     bind_result (set_jacobian s (''vdot'', ''g'') cos_theta) (\<lambda>s1.
     bind_result (np_mul (np_neg g) sin_theta) (\<lambda>r2.
     bind_result (set_jacobian s1 (''vdot'', ''theta'') r2) (\<lambda>s2.
     bind_result (set_jacobian s2 (''xdot'', ''v'') sin_theta) (\<lambda>s3.
     bind_result (np_mul v cos_theta) (\<lambda>r4.
     bind_result (set_jacobian s3 (''xdot'', ''theta'') r4) (\<lambda>s4.
     bind_result (set_jacobian s4 (''ydot'', ''v'') (np_neg cos_theta)) (\<lambda>s5.
     bind_result (np_mul v sin_theta) (\<lambda>r6.
     set_jacobian s5 (''ydot'', ''theta'') r6)))))))))))"

text \<open>
  Between evaluations the caller writes the input vectors: arrays \<open>v\<close> and \<open>theta\<close>, and
  the scalar \<open>g\<close>, which is an array of shape \<open>(1,)\<close> as \<open>ode_setup\<close> declares it.
\<close>

definition load_inputs :: "component \<Rightarrow> ndarray \<Rightarrow> real \<Rightarrow> ndarray \<Rightarrow> component" where
  "load_inputs s v g theta = s\<lparr>inputs := (inputs s)(''v'' \<mapsto> v, ''g'' \<mapsto> [g], ''theta'' \<mapsto> theta)\<rparr>"

text \<open>
  The component is re-invoked by its caller, once per iteration: a history of calls writes
  inputs and evaluates rates or partials, and stops at the first exception.
\<close>

datatype call = Load ndarray real ndarray | Compute | ComputePartials

fun step :: "call \<Rightarrow> component \<Rightarrow> error + component" where
  "step (Load v g theta) s = Inr (load_inputs s v g theta)"
| "step Compute s = compute s"
| "step ComputePartials s = compute_partials s"

fun run :: "call list \<Rightarrow> component \<Rightarrow> error + component" where
  "run [] s = Inr s"
| "run (c # cs) s = bind_result (step c s) (run cs)"

text \<open>
  Reading one entry of the result of an evaluation: entry \<open>i\<close> of the output \<open>name\<close>, and
  entry \<open>k\<close> of the Jacobian block \<open>key\<close>. Both are 0 where there is no such entry.
\<close>

definition output_at :: "error + component \<Rightarrow> string \<Rightarrow> nat \<Rightarrow> real" where
  "output_at r name i =
     (case r of Inl e \<Rightarrow> 0
      | Inr s \<Rightarrow> (case outputs s name of None \<Rightarrow> 0
                  | Some a \<Rightarrow> if i < length a then a ! i else 0))"

definition jacobian_at :: "error + component \<Rightarrow> string \<times> string \<Rightarrow> nat \<Rightarrow> real" where
  "jacobian_at r key k =
     (case r of Inl e \<Rightarrow> 0
      | Inr s \<Rightarrow> (case jacobian s key of None \<Rightarrow> 0
                  | Some a \<Rightarrow> if k < length a then a ! k else 0))"

text \<open>The state \<open>s\<close> with entry \<open>c\<close> of the input \<open>wrt\<close> replaced by \<open>x\<close>.\<close>

definition perturb :: "component \<Rightarrow> string \<Rightarrow> int \<Rightarrow> real \<Rightarrow> component" where
  "perturb s wrt c x =
     (case inputs s wrt of None \<Rightarrow> s
      | Some a \<Rightarrow> s\<lparr>inputs := (inputs s)(wrt \<mapsto> a[nat c := x])\<rparr>)"

text \<open>Entry \<open>c\<close> of the input \<open>wrt\<close> of the state \<open>s\<close>, 0 where there is none.\<close>

definition input_at :: "component \<Rightarrow> string \<Rightarrow> int \<Rightarrow> real" where
  "input_at s wrt c =
     (case inputs s wrt of None \<Rightarrow> 0
      | Some a \<Rightarrow> if 0 \<le> c \<and> nat c < length a then a ! nat c else 0)"

section \<open>Command-line options and driver selection of the two scripts\<close>

text \<open>
  Each script declares optional flags with \<open>add_argument\<close>: a default, and for the
  paraboloid script a list of choices. The parser's input is, for each flag, the value
  supplied on the command line (\<open>None\<close> when the flag is absent). A supplied value outside
  the declared choices makes \<open>parse_args\<close> exit with an error.
\<close>

record argument =
  arg_default :: string
  arg_choices :: "string list option"

definition parse_arg :: "argument \<Rightarrow> string option \<Rightarrow> error + string" where
  "parse_arg a supplied =
     (case supplied of
        None \<Rightarrow> Inr (arg_default a)
      | Some x \<Rightarrow>
          (case arg_choices a of
             None \<Rightarrow> Inr x
           | Some cs \<Rightarrow> if x \<in> set cs then Inr x else Inl ArgumentError))"

text \<open>
  A driver holds two dictionaries, \<open>options\<close> and \<open>opt_settings\<close>; a setting is a string or
  an integer. The scripts write entries into the dictionaries of a freshly made driver.
\<close>

datatype setting = Str string | Num int

record driver =
  options :: "string \<rightharpoonup> string"
  opt_settings :: "string \<rightharpoonup> setting"

definition empty_driver :: driver where
  "empty_driver = \<lparr>options = Map.empty, opt_settings = Map.empty\<rparr>"

text \<open>
  \<open>paraboloid_min.py\<close>: the flag \<open>--algorithm\<close> with its choices is parsed first; then the
  driver \<open>d\<close> is made and its option \<open>algorithm\<close> is assigned.
\<close>

definition paraboloid_min :: "driver \<Rightarrow> string option \<Rightarrow> error + driver" where
  "paraboloid_min d algorithm_flag =
     bind_result
       (parse_arg \<lparr>arg_default = ''ip'', arg_choices = Some [''ip'', ''tr'', ''mma'']\<rparr>
          algorithm_flag) (\<lambda>algorithm.
     Inr (d\<lparr>options := (options d)(''algorithm'' \<mapsto> algorithm)\<rparr>))"

text \<open>
  \<open>brachistochrone.py\<close>: the flags \<open>--optimizer\<close> and \<open>--algorithm\<close> are parsed without
  choices; then the driver \<open>d\<close> is made and configured by the branches on the two values.
\<close>

definition brachistochrone_driver ::
  "driver \<Rightarrow> string option \<Rightarrow> string option \<Rightarrow> error + driver" where
  "brachistochrone_driver d optimizer_flag algorithm_flag =
     bind_result
       (parse_arg \<lparr>arg_default = ''ParOpt'', arg_choices = None\<rparr> optimizer_flag) (\<lambda>optimizer.
     bind_result
       (parse_arg \<lparr>arg_default = ''tr'', arg_choices = None\<rparr> algorithm_flag) (\<lambda>algorithm.
     if optimizer = ''SLSQP'' then
       Inr (d\<lparr>options := (options d)(''optimizer'' \<mapsto> ''SLSQP'')\<rparr>)
     else
       let d1 = d\<lparr>options := (options d)(''optimizer'' \<mapsto> ''ParOpt'')\<rparr> in
       if algorithm = ''tr'' then
         Inr (d1\<lparr>opt_settings := (opt_settings d1)(''algorithm'' \<mapsto> Str ''tr'')\<rparr>)
       else
         Inr (d1\<lparr>opt_settings := (opt_settings d1)
               (''algorithm'' \<mapsto> Str ''ip'',
                ''norm_type'' \<mapsto> Str ''infinity'',
                ''max_major_iters'' \<mapsto> Num 1000,
                ''barrier_strategy'' \<mapsto> Str ''mehrotra'',
                ''starting_point_strategy'' \<mapsto> Str ''affine_step'',
                ''qn_type'' \<mapsto> Str ''bfgs'')\<rparr>)))"

text \<open>
  Reading an entry of the configured driver: the option \<open>k\<close> and the setting \<open>k\<close>, \<open>None\<close>
  where the script stopped with an error or the entry is absent.
\<close>

definition option_of :: "error + driver \<Rightarrow> string \<Rightarrow> string option" where
  "option_of r k = (case r of Inl e \<Rightarrow> None | Inr d \<Rightarrow> options d k)"

definition setting_of :: "error + driver \<Rightarrow> string \<Rightarrow> setting option" where
  "setting_of r k = (case r of Inl e \<Rightarrow> None | Inr d \<Rightarrow> opt_settings d k)"

section \<open>Closed forms used in the proofs\<close>

text \<open>The sparsity pattern that the setup declares for \<open>N\<close> nodes.\<close>

definition declared :: "int \<Rightarrow> string \<times> string \<rightharpoonup> int list \<times> int list" where
  "declared N =
     [(''vdot'', ''g'') \<mapsto> (np_arange N, replicate (nat N) 0),
      (''vdot'', ''theta'') \<mapsto> (np_arange N, np_arange N),
      (''xdot'', ''v'') \<mapsto> (np_arange N, np_arange N),
      (''xdot'', ''theta'') \<mapsto> (np_arange N, np_arange N),
      (''ydot'', ''v'') \<mapsto> (np_arange N, np_arange N),
      (''ydot'', ''theta'') \<mapsto> (np_arange N, np_arange N)]"

text \<open>
  The invariant of a component that has been set up for \<open>N\<close> nodes: three outputs of
  length \<open>N\<close>, the declared pattern, and Jacobian values for declared blocks only.
\<close>

definition shaped :: "int \<Rightarrow> component \<Rightarrow> bool" where
  "shaped N s \<longleftrightarrow>
     (\<exists>a b c. outputs s = [''xdot'' \<mapsto> a, ''ydot'' \<mapsto> b, ''vdot'' \<mapsto> c] \<and>
        length a = nat N \<and> length b = nat N \<and> length c = nat N) \<and>
     partials s = declared N \<and> dom (jacobian s) \<subseteq> dom (declared N)"

text \<open>The output and Jacobian dictionaries after an evaluation at \<open>v\<close>, \<open>g\<close>, \<open>theta\<close>.\<close>

definition rates :: "ndarray \<Rightarrow> real \<Rightarrow> ndarray \<Rightarrow> string \<rightharpoonup> ndarray" where
  "rates v g theta =
     [''xdot'' \<mapsto> map2 (\<lambda>a t. a * sin t) v theta,
      ''ydot'' \<mapsto> map2 (\<lambda>a t. - a * cos t) v theta,
      ''vdot'' \<mapsto> map (\<lambda>t. g * cos t) theta]"

definition partial_values :: "ndarray \<Rightarrow> real \<Rightarrow> ndarray \<Rightarrow> string \<times> string \<rightharpoonup> ndarray" where
  "partial_values v g theta =
     [(''vdot'', ''g'') \<mapsto> map cos theta,
      (''vdot'', ''theta'') \<mapsto> map (\<lambda>t. - g * sin t) theta,
      (''xdot'', ''v'') \<mapsto> map sin theta,
      (''xdot'', ''theta'') \<mapsto> map2 (\<lambda>a t. a * cos t) v theta,
      (''ydot'', ''v'') \<mapsto> map (\<lambda>t. - cos t) theta,
      (''ydot'', ''theta'') \<mapsto> map2 (\<lambda>a t. a * sin t) v theta]"

section \<open>Basic facts\<close>

lemma bind_result_Inr [simp]: "bind_result (Inr x) f = f x"
  by (simp add: bind_result_def)

lemma bind_result_Inl [simp]: "bind_result (Inl e) f = Inl e"
  by (simp add: bind_result_def)

lemma broadcast_to_same [simp]: "length a = n \<Longrightarrow> broadcast_to n a = Inr a"
  by (simp add: broadcast_to_def)

lemma broadcast_to_single [simp]: "broadcast_to n [x] = Inr (replicate n x)"
  by (cases n) (auto simp: broadcast_to_def)

lemma np_mul_same: "length a = length b \<Longrightarrow> np_mul a b = Inr (map2 (*) a b)"
  by (simp add: np_mul_def Let_def)

lemma np_mul_scalar: "np_mul [x] b = Inr (map ((*) x) b)"
  by (simp add: np_mul_def Let_def map2_map_map [where f="\<lambda>_. x" and g="\<lambda>y. y", simplified] zip_replicate1 map_replicate_const)

lemma ode_setup_ok:
  "0 \<le> N \<Longrightarrow> ode_setup (BrachistochroneODE N) =
     Inr \<lparr>num_nodes = N,
          inputs = [''v'' \<mapsto> replicate (nat N) 0, ''g'' \<mapsto> [9.80665], ''theta'' \<mapsto> replicate (nat N) 0],
          outputs = [''xdot'' \<mapsto> replicate (nat N) 0, ''ydot'' \<mapsto> replicate (nat N) 0,
                     ''vdot'' \<mapsto> replicate (nat N) 0],
          partials = declared N, jacobian = Map.empty\<rparr>"
  by (simp add: ode_setup_def BrachistochroneODE_def np_zeros_def add_input_def add_output_def
      declare_partials_def np_arange_def declared_def Let_def)

lemma ode_setup_negative: "N < 0 \<Longrightarrow> ode_setup (BrachistochroneODE N) = Inl ValueError"
  by (simp add: ode_setup_def np_zeros_def BrachistochroneODE_def)

lemma shaped_setup: "ode_setup (BrachistochroneODE N) = Inr s0 \<Longrightarrow> shaped N s0"
proof -
  assume h: "ode_setup (BrachistochroneODE N) = Inr s0"
  have "0 \<le> N" using h ode_setup_negative [of N] by (cases "N < 0") auto
  from ode_setup_ok [OF this] h have e: "s0 = \<lparr>num_nodes = N,
          inputs = [''v'' \<mapsto> replicate (nat N) 0, ''g'' \<mapsto> [9.80665], ''theta'' \<mapsto> replicate (nat N) 0],
          outputs = [''xdot'' \<mapsto> replicate (nat N) 0, ''ydot'' \<mapsto> replicate (nat N) 0,
                     ''vdot'' \<mapsto> replicate (nat N) 0],
          partials = declared N, jacobian = Map.empty\<rparr>" by simp
  have "\<exists>a b c. outputs s0 = [''xdot'' \<mapsto> a, ''ydot'' \<mapsto> b, ''vdot'' \<mapsto> c] \<and>
        length a = nat N \<and> length b = nat N \<and> length c = nat N"
    by (intro exI [of _ "replicate (nat N) 0"]) (simp add: e)
  then show ?thesis unfolding shaped_def by (simp add: e)
qed

lemma set_output_ok:
  "outputs s name = Some old \<Longrightarrow> length val = length old \<Longrightarrow>
   set_output s name val = Inr (s\<lparr>outputs := (outputs s)(name \<mapsto> val)\<rparr>)"
  by (simp add: set_output_def getitem_def)

lemma compute_shaped:
  assumes "shaped N s" "length v = nat N" "length theta = nat N"
  shows "compute (load_inputs s v g theta) = Inr ((load_inputs s v g theta)\<lparr>outputs := rates v g theta\<rparr>)"
proof -
  from assms(1) obtain a b c where o: "outputs s = [''xdot'' \<mapsto> a, ''ydot'' \<mapsto> b, ''vdot'' \<mapsto> c]"
    and l: "length a = nat N" "length b = nat N" "length c = nat N"
    by (auto simp: shaped_def)
  have m1: "np_mul [g] (np_cos theta) = Inr (map (\<lambda>t. g * cos t) theta)"
    by (simp add: np_mul_scalar np_cos_def comp_def)
  have m2: "np_mul v (np_sin theta) = Inr (map2 (\<lambda>a t. a * sin t) v theta)"
    using assms by (simp add: np_mul_same np_sin_def zip_map2 comp_def case_prod_unfold)
  have m3: "np_mul (np_neg v) (np_cos theta) = Inr (map2 (\<lambda>a t. - a * cos t) v theta)"
    using assms by (simp add: np_mul_same np_cos_def np_neg_def zip_map2 zip_map1 comp_def case_prod_unfold)
  show ?thesis
    using assms(2,3) l
    by (simp add: compute_def load_inputs_def getitem_def Let_def m1 m2 m3 o set_output_def rates_def fun_upd_twist)
qed


lemma length_np_arange [simp]: "length (np_arange N) = nat N"
  by (simp add: np_arange_def)

lemma length_np_cos [simp]: "length (np_cos a) = length a"
  by (simp add: np_cos_def)

lemma length_np_sin [simp]: "length (np_sin a) = length a"
  by (simp add: np_sin_def)

lemma length_np_neg [simp]: "length (np_neg a) = length a"
  by (simp add: np_neg_def)

lemma overwrite_declared:
  assumes "dom j \<subseteq> dom (declared N)"
  shows "j((''vdot'', ''g'') \<mapsto> a1, (''vdot'', ''theta'') \<mapsto> a2, (''xdot'', ''v'') \<mapsto> a3,
           (''xdot'', ''theta'') \<mapsto> a4, (''ydot'', ''v'') \<mapsto> a5, (''ydot'', ''theta'') \<mapsto> a6) =
         [(''vdot'', ''g'') \<mapsto> a1, (''vdot'', ''theta'') \<mapsto> a2, (''xdot'', ''v'') \<mapsto> a3,
           (''xdot'', ''theta'') \<mapsto> a4, (''ydot'', ''v'') \<mapsto> a5, (''ydot'', ''theta'') \<mapsto> a6]"
proof
  fix k
  have "k \<notin> dom (declared N) \<Longrightarrow> j k = None" using assms by blast
  then show "(j((''vdot'', ''g'') \<mapsto> a1, (''vdot'', ''theta'') \<mapsto> a2, (''xdot'', ''v'') \<mapsto> a3,
           (''xdot'', ''theta'') \<mapsto> a4, (''ydot'', ''v'') \<mapsto> a5, (''ydot'', ''theta'') \<mapsto> a6)) k =
         [(''vdot'', ''g'') \<mapsto> a1, (''vdot'', ''theta'') \<mapsto> a2, (''xdot'', ''v'') \<mapsto> a3,
           (''xdot'', ''theta'') \<mapsto> a4, (''ydot'', ''v'') \<mapsto> a5, (''ydot'', ''theta'') \<mapsto> a6] k"
    by (simp add: declared_def)
qed

lemma compute_partials_shaped:
  assumes "shaped N s" "length v = nat N" "length theta = nat N"
  shows "compute_partials (load_inputs s v g theta) =
         Inr ((load_inputs s v g theta)\<lparr>jacobian := partial_values v g theta\<rparr>)"
proof -
  have p: "partials s = declared N" and d: "dom (jacobian s) \<subseteq> dom (declared N)"
    using assms(1) by (auto simp: shaped_def)
  have m2: "np_mul (np_neg [g]) (np_sin theta) = Inr (map (\<lambda>t. - g * sin t) theta)"
    by (simp add: np_mul_scalar np_sin_def np_neg_def comp_def)
  have m4: "np_mul v (np_cos theta) = Inr (map2 (\<lambda>a t. a * cos t) v theta)"
    using assms by (simp add: np_mul_same np_cos_def zip_map2 comp_def case_prod_unfold)
  have m6: "np_mul v (np_sin theta) = Inr (map2 (\<lambda>a t. a * sin t) v theta)"
    using assms by (simp add: np_mul_same np_sin_def zip_map2 comp_def case_prod_unfold)
  show ?thesis
    using assms(2,3)
    apply (simp add: compute_partials_def load_inputs_def getitem_def Let_def m2 m4 m6 p
        set_jacobian_def declared_def overwrite_declared [OF d] partial_values_def)
    apply (simp add: np_cos_def np_sin_def np_neg_def comp_def)
    done
qed


lemma bind_result_eq_Inr: "bind_result r f = Inr y \<longleftrightarrow> (\<exists>x. r = Inr x \<and> f x = Inr y)"
  by (cases r) simp_all

lemma broadcast_to_length: "broadcast_to n a = Inr b \<Longrightarrow> length b = n"
  by (auto simp: broadcast_to_def split: if_splits list.splits)

lemma set_output_frame:
  assumes "set_output s name val = Inr s'"
  shows "\<exists>old a. outputs s name = Some old \<and> length a = length old \<and>
           s' = s\<lparr>outputs := (outputs s)(name \<mapsto> a)\<rparr>"
  using assms
  by (auto simp: set_output_def getitem_def bind_result_eq_Inr
      dest: broadcast_to_length split: option.splits)

lemma set_jacobian_frame:
  assumes "set_jacobian s key val = Inr s'"
  shows "\<exists>a. key \<in> dom (partials s) \<and> s' = s\<lparr>jacobian := (jacobian s)(key \<mapsto> a)\<rparr>"
  using assms
  by (auto simp: set_jacobian_def getitem_def bind_result_eq_Inr split: option.splits)

lemma set_output_shaped:
  assumes "shaped N s" "set_output s name val = Inr s'"
  shows "shaped N s'"
proof -
  from set_output_frame [OF assms(2)] obtain old a where
    o: "outputs s name = Some old" and l: "length a = length old"
    and e: "s' = s\<lparr>outputs := (outputs s)(name \<mapsto> a)\<rparr>" by blast
  from assms(1) obtain x y z where
    m: "outputs s = [''xdot'' \<mapsto> x, ''ydot'' \<mapsto> y, ''vdot'' \<mapsto> z]"
    and len: "length x = nat N" "length y = nat N" "length z = nat N"
    and rest: "partials s = declared N" "dom (jacobian s) \<subseteq> dom (declared N)"
    by (auto simp: shaped_def)
  from o m have "name = ''xdot'' \<or> name = ''ydot'' \<or> name = ''vdot''"
    by (auto split: if_splits)
  then consider "name = ''xdot''" | "name = ''ydot''" | "name = ''vdot''" by blast
  then have "\<exists>x' y' z'. (outputs s)(name \<mapsto> a) = [''xdot'' \<mapsto> x', ''ydot'' \<mapsto> y', ''vdot'' \<mapsto> z'] \<and>
     length x' = nat N \<and> length y' = nat N \<and> length z' = nat N"
  proof cases
    case 1
    with o m l len have "(outputs s)(name \<mapsto> a) = [''xdot'' \<mapsto> a, ''ydot'' \<mapsto> y, ''vdot'' \<mapsto> z] \<and>
       length a = nat N" by (auto simp: fun_upd_twist)
    with len show ?thesis by blast
  next
    case 2
    with o m l len have "(outputs s)(name \<mapsto> a) = [''xdot'' \<mapsto> x, ''ydot'' \<mapsto> a, ''vdot'' \<mapsto> z] \<and>
       length a = nat N" by (auto simp: fun_upd_twist)
    with len show ?thesis by blast
  next
    case 3
    with o m l len have "(outputs s)(name \<mapsto> a) = [''xdot'' \<mapsto> x, ''ydot'' \<mapsto> y, ''vdot'' \<mapsto> a] \<and>
       length a = nat N" by (auto simp: fun_upd_twist)
    with len show ?thesis by blast
  qed
  with rest show ?thesis by (simp add: shaped_def e)
qed

lemma set_jacobian_shaped:
  assumes "shaped N s" "set_jacobian s key val = Inr s'"
  shows "shaped N s'"
proof -
  from set_jacobian_frame [OF assms(2)] obtain a where
    k: "key \<in> dom (partials s)" and e: "s' = s\<lparr>jacobian := (jacobian s)(key \<mapsto> a)\<rparr>" by blast
  from assms(1) k have "dom ((jacobian s)(key \<mapsto> a)) \<subseteq> dom (declared N)"
    by (auto simp: shaped_def)
  with assms(1) show ?thesis by (simp add: shaped_def e)
qed

lemma compute_steps:
  assumes "compute s = Inr s'"
  shows "\<exists>r1 r2 r3 s1 s2. set_output s ''vdot'' r1 = Inr s1 \<and>
           set_output s1 ''xdot'' r2 = Inr s2 \<and> set_output s2 ''ydot'' r3 = Inr s'"
  using assms unfolding compute_def Let_def bind_result_eq_Inr by blast

lemma compute_partials_steps:
  assumes "compute_partials s = Inr s'"
  shows "\<exists>r1 r2 r3 r4 r5 r6 s1 s2 s3 s4 s5.
           set_jacobian s (''vdot'', ''g'') r1 = Inr s1 \<and>
           set_jacobian s1 (''vdot'', ''theta'') r2 = Inr s2 \<and>
           set_jacobian s2 (''xdot'', ''v'') r3 = Inr s3 \<and>
           set_jacobian s3 (''xdot'', ''theta'') r4 = Inr s4 \<and>
           set_jacobian s4 (''ydot'', ''v'') r5 = Inr s5 \<and>
           set_jacobian s5 (''ydot'', ''theta'') r6 = Inr s'"
  using assms unfolding compute_partials_def Let_def bind_result_eq_Inr by blast

lemma compute_shaped_inv:
  assumes "shaped N s" "compute s = Inr s'"
  shows "shaped N s'"
  using compute_steps [OF assms(2)] assms(1) set_output_shaped by blast

lemma compute_partials_shaped_inv:
  assumes "shaped N s" "compute_partials s = Inr s'"
  shows "shaped N s'"
  using compute_partials_steps [OF assms(2)] assms(1) set_jacobian_shaped by blast

lemma load_inputs_shaped: "shaped N s \<Longrightarrow> shaped N (load_inputs s v g theta)"
  by (simp add: shaped_def load_inputs_def)

lemma step_shaped: "shaped N s \<Longrightarrow> step c s = Inr s' \<Longrightarrow> shaped N s'"
  by (cases c) (auto intro: load_inputs_shaped compute_shaped_inv compute_partials_shaped_inv)

lemma run_shaped: "shaped N s \<Longrightarrow> run cs s = Inr s' \<Longrightarrow> shaped N s'"
  by (induction cs arbitrary: s) (auto simp: bind_result_eq_Inr intro: step_shaped)

lemma reached_shaped:
  "ode_setup (BrachistochroneODE N) = Inr s0 \<Longrightarrow> run cs s0 = Inr s \<Longrightarrow> shaped N s"
  using shaped_setup run_shaped by blast

lemma ode_setup_nonneg: "ode_setup (BrachistochroneODE N) = Inr s0 \<Longrightarrow> 0 \<le> N"
  using ode_setup_negative [of N] by (cases "N < 0") auto

section \<open>Rate evaluation\<close>

text \<open>
  C1. After a setup for \<open>N\<close> nodes and any history of calls, evaluating the rates at
  inputs \<open>v\<close>, \<open>theta\<close> of length \<open>N\<close> and gravity \<open>g\<close> succeeds and leaves exactly the
  three outputs \<open>vdot\<close>, \<open>xdot\<close>, \<open>ydot\<close>, each of length \<open>N\<close>, with
  \<open>vdot[i] = g * cos(theta[i])\<close>, \<open>xdot[i] = v[i] * sin(theta[i])\<close> and
  \<open>ydot[i] = -v[i] * cos(theta[i])\<close> at every index.
\<close>

theorem compute_rates:
  assumes "ode_setup (BrachistochroneODE N) = Inr s0" and "run cs s0 = Inr s"
    and "length v = nat N" and "length theta = nat N"
  shows "\<exists>s' vdot xdot ydot.
           compute (load_inputs s v g theta) = Inr s' \<and>
           outputs s' = [''vdot'' \<mapsto> vdot, ''xdot'' \<mapsto> xdot, ''ydot'' \<mapsto> ydot] \<and>
           length vdot = nat N \<and> length xdot = nat N \<and> length ydot = nat N \<and>
           (\<forall>i < nat N. vdot ! i = g * cos (theta ! i) \<and>
                        xdot ! i = v ! i * sin (theta ! i) \<and>
                        ydot ! i = - v ! i * cos (theta ! i))"
proof -
  have sh: "shaped N s" using assms(1,2) by (rule reached_shaped)
  let ?s' = "(load_inputs s v g theta)\<lparr>outputs := rates v g theta\<rparr>"
  have c: "compute (load_inputs s v g theta) = Inr ?s'"
    using sh assms(3,4) by (rule compute_shaped)
  have o: "outputs ?s' = [''vdot'' \<mapsto> map (\<lambda>t. g * cos t) theta,
                          ''xdot'' \<mapsto> map2 (\<lambda>a t. a * sin t) v theta,
                          ''ydot'' \<mapsto> map2 (\<lambda>a t. - a * cos t) v theta]"
    by (simp add: rates_def fun_upd_twist)
  have l: "length (map (\<lambda>t. g * cos t) theta) = nat N"
    "length (map2 (\<lambda>a t. a * sin t) v theta) = nat N"
    "length (map2 (\<lambda>a t. - a * cos t) v theta) = nat N"
    using assms(3,4) by simp_all
  have f: "\<forall>i < nat N. map (\<lambda>t. g * cos t) theta ! i = g * cos (theta ! i) \<and>
                        map2 (\<lambda>a t. a * sin t) v theta ! i = v ! i * sin (theta ! i) \<and>
                        map2 (\<lambda>a t. - a * cos t) v theta ! i = - v ! i * cos (theta ! i)"
    using assms(3,4) by simp
  from c o l f show ?thesis by blast
qed

text \<open>An instance with two nodes: \<open>v = [5, 4]\<close>, \<open>g = 3\<close>, \<open>theta = [0, pi]\<close>.\<close>

theorem compute_rates_witness:
  "\<exists>s0 s'. ode_setup (BrachistochroneODE 2) = Inr s0 \<and>
       compute (load_inputs s0 [5, 4] 3 [0, pi]) = Inr s' \<and>
       outputs s' = [''vdot'' \<mapsto> [3, - 3], ''xdot'' \<mapsto> [0, 0], ''ydot'' \<mapsto> [- 5, 4]]"
proof -
  obtain s0 where s0: "ode_setup (BrachistochroneODE 2) = Inr s0"
    using ode_setup_ok [of 2] by simp
  have r: "run [] s0 = Inr s0" by simp
  from compute_rates [OF s0 r, of "[5, 4]" "[0, pi]" 3]
  obtain s' vdot xdot ydot where
    c: "compute (load_inputs s0 [5, 4] 3 [0, pi]) = Inr s'"
    and o: "outputs s' = [''vdot'' \<mapsto> vdot, ''xdot'' \<mapsto> xdot, ''ydot'' \<mapsto> ydot]"
    and l: "length vdot = 2" "length xdot = 2" "length ydot = 2"
    and f: "\<forall>i < 2. vdot ! i = 3 * cos ([0, pi] ! i) \<and>
                        xdot ! i = [5, 4] ! i * sin ([0, pi] ! i) \<and>
                        ydot ! i = - [5, 4] ! i * cos ([0, pi] ! i)"
    by auto
  from f have f0: "vdot ! 0 = 3" "xdot ! 0 = 0" "ydot ! 0 = - 5"  by auto
  from f have "vdot ! 1 = 3 * cos ([0, pi] ! 1) \<and>
                        xdot ! 1 = [5, 4] ! 1 * sin ([0, pi] ! 1) \<and>
                        ydot ! 1 = - [5, 4] ! 1 * cos ([0, pi] ! 1)" by simp
  then have f1: "vdot ! 1 = - 3" "xdot ! 1 = 0" "ydot ! 1 = 4" by simp_all
  have two: "\<And>xs a b. length xs = 2 \<Longrightarrow> xs ! 0 = a \<Longrightarrow> xs ! 1 = (b::real) \<Longrightarrow> xs = [a, b]"
    by (auto simp: numeral_2_eq_2 length_Suc_conv)
  have "vdot = [3, - 3]" "xdot = [0, 0]" "ydot = [- 5, 4]"
    using l f0 f1 two by blast+
  with s0 c o show ?thesis by blast
qed

section \<open>Jacobian evaluation\<close>

text \<open>
  C2. After a setup for \<open>N\<close> nodes and any history of calls, evaluating the partials at
  inputs \<open>v\<close>, \<open>theta\<close> of length \<open>N\<close> and gravity \<open>g\<close> succeeds and leaves exactly six
  Jacobian arrays, each of length \<open>N\<close>, whose entries at every node \<open>i\<close> are
  \<open>cos(theta[i])\<close> for vdot by g, \<open>-g * sin(theta[i])\<close> for vdot by theta,
  \<open>sin(theta[i])\<close> for xdot by v, \<open>v[i] * cos(theta[i])\<close> for xdot by theta,
  \<open>-cos(theta[i])\<close> for ydot by v and \<open>v[i] * sin(theta[i])\<close> for ydot by theta.
\<close>

theorem compute_partials_values:
  assumes "ode_setup (BrachistochroneODE N) = Inr s0" and "run cs s0 = Inr s"
    and "length v = nat N" and "length theta = nat N"
  shows "\<exists>s' vdot_g vdot_theta xdot_v xdot_theta ydot_v ydot_theta.
           compute_partials (load_inputs s v g theta) = Inr s' \<and>
           jacobian s' =
             [(''vdot'', ''g'') \<mapsto> vdot_g, (''vdot'', ''theta'') \<mapsto> vdot_theta,
              (''xdot'', ''v'') \<mapsto> xdot_v, (''xdot'', ''theta'') \<mapsto> xdot_theta,
              (''ydot'', ''v'') \<mapsto> ydot_v, (''ydot'', ''theta'') \<mapsto> ydot_theta] \<and>
           length vdot_g = nat N \<and> length vdot_theta = nat N \<and>
           length xdot_v = nat N \<and> length xdot_theta = nat N \<and>
           length ydot_v = nat N \<and> length ydot_theta = nat N \<and>
           (\<forall>i < nat N.
              vdot_g ! i = cos (theta ! i) \<and>
              vdot_theta ! i = - g * sin (theta ! i) \<and>
              xdot_v ! i = sin (theta ! i) \<and>
              xdot_theta ! i = v ! i * cos (theta ! i) \<and>
              ydot_v ! i = - cos (theta ! i) \<and>
              ydot_theta ! i = v ! i * sin (theta ! i))"
proof -
  have sh: "shaped N s" using assms(1,2) by (rule reached_shaped)
  let ?s' = "(load_inputs s v g theta)\<lparr>jacobian := partial_values v g theta\<rparr>"
  have c: "compute_partials (load_inputs s v g theta) = Inr ?s'"
    using sh assms(3,4) by (rule compute_partials_shaped)
  have j: "jacobian ?s' =
     [(''vdot'', ''g'') \<mapsto> map cos theta,
      (''vdot'', ''theta'') \<mapsto> map (\<lambda>t. - g * sin t) theta,
      (''xdot'', ''v'') \<mapsto> map sin theta,
      (''xdot'', ''theta'') \<mapsto> map2 (\<lambda>a t. a * cos t) v theta,
      (''ydot'', ''v'') \<mapsto> map (\<lambda>t. - cos t) theta,
      (''ydot'', ''theta'') \<mapsto> map2 (\<lambda>a t. a * sin t) v theta]"
    by (simp add: partial_values_def)
  have l: "length (map cos theta) = nat N"
    "length (map (\<lambda>t. - g * sin t) theta) = nat N"
    "length (map sin theta) = nat N"
    "length (map2 (\<lambda>a t. a * cos t) v theta) = nat N"
    "length (map (\<lambda>t. - cos t) theta) = nat N"
    "length (map2 (\<lambda>a t. a * sin t) v theta) = nat N"
    using assms(3,4) by simp_all
  have f: "\<forall>i < nat N.
      map cos theta ! i = cos (theta ! i) \<and>
      map (\<lambda>t. - g * sin t) theta ! i = - g * sin (theta ! i) \<and>
      map sin theta ! i = sin (theta ! i) \<and>
      map2 (\<lambda>a t. a * cos t) v theta ! i = v ! i * cos (theta ! i) \<and>
      map (\<lambda>t. - cos t) theta ! i = - cos (theta ! i) \<and>
      map2 (\<lambda>a t. a * sin t) v theta ! i = v ! i * sin (theta ! i)"
    using assms(3,4) by simp
  show ?thesis
    apply (rule exI [of _ ?s'])
    apply (rule exI [of _ "map cos theta"])
    apply (rule exI [of _ "map (\<lambda>t. - g * sin t) theta"])
    apply (rule exI [of _ "map sin theta"])
    apply (rule exI [of _ "map2 (\<lambda>a t. a * cos t) v theta"])
    apply (rule exI [of _ "map (\<lambda>t. - cos t) theta"])
    apply (rule exI [of _ "map2 (\<lambda>a t. a * sin t) v theta"])
    using c j l f apply (intro conjI)
    apply assumption+
    done
qed

text \<open>An instance with one node: \<open>v = [5]\<close>, \<open>g = 3\<close>, \<open>theta = [0]\<close>.\<close>

theorem compute_partials_values_witness:
  "\<exists>s0 s'. ode_setup (BrachistochroneODE 1) = Inr s0 \<and>
       compute_partials (load_inputs s0 [5] 3 [0]) = Inr s' \<and>
       jacobian s' =
         [(''vdot'', ''g'') \<mapsto> [1], (''vdot'', ''theta'') \<mapsto> [0],
          (''xdot'', ''v'') \<mapsto> [0], (''xdot'', ''theta'') \<mapsto> [5],
          (''ydot'', ''v'') \<mapsto> [- 1], (''ydot'', ''theta'') \<mapsto> [0]]"
proof -
  obtain s0 where s0: "ode_setup (BrachistochroneODE 1) = Inr s0"
    using ode_setup_ok [of 1] by simp
  have r: "run [] s0 = Inr s0" by simp
  have one: "\<And>xs a. length xs = nat 1 \<Longrightarrow> xs ! 0 = a \<Longrightarrow> xs = [a::real]"
    by (auto simp: length_Suc_conv)
  from compute_partials_values [OF s0 r, of "[5]" "[0]" 3]
  obtain s' a1 a2 a3 a4 a5 a6 where
    c: "compute_partials (load_inputs s0 [5] 3 [0]) = Inr s'"
    and j: "jacobian s' =
         [(''vdot'', ''g'') \<mapsto> a1, (''vdot'', ''theta'') \<mapsto> a2,
          (''xdot'', ''v'') \<mapsto> a3, (''xdot'', ''theta'') \<mapsto> a4,
          (''ydot'', ''v'') \<mapsto> a5, (''ydot'', ''theta'') \<mapsto> a6]"
    and l: "length a1 = nat 1" "length a2 = nat 1" "length a3 = nat 1"
      "length a4 = nat 1" "length a5 = nat 1" "length a6 = nat 1"
    and f: "a1 ! 0 = 1" "a2 ! 0 = 0" "a3 ! 0 = 0" "a4 ! 0 = 5" "a5 ! 0 = - 1" "a6 ! 0 = 0"
    by auto
  have "a1 = [1]" "a2 = [0]" "a3 = [0]" "a4 = [5]" "a5 = [- 1]" "a6 = [0]"
    using l f one by blast+
  with s0 c j show ?thesis by blast
qed

section \<open>Totality, frame and speed identity of the evaluations\<close>

text \<open>
  C8. The evaluations have no error branch on inputs of the agreed shape: for every
  \<open>N \<ge> 0\<close> the setup succeeds, and in every state reached from it by a history of calls,
  both \<open>compute\<close> and \<open>compute_partials\<close> return a state (not an exception) for all real
  arrays \<open>v\<close>, \<open>theta\<close> of length \<open>N\<close> and every real \<open>g\<close>.
\<close>

theorem evaluations_total:
  assumes "0 \<le> N" and "length v = nat N" and "length theta = nat N"
  shows "\<exists>s0. ode_setup (BrachistochroneODE N) = Inr s0 \<and>
           (\<forall>cs s. run cs s0 = Inr s \<longrightarrow>
              (\<exists>s'. compute (load_inputs s v g theta) = Inr s') \<and>
              (\<exists>s'. compute_partials (load_inputs s v g theta) = Inr s'))"
proof -
  from ode_setup_ok [OF assms(1)] obtain s0 where s0: "ode_setup (BrachistochroneODE N) = Inr s0"
    by blast
  have "(\<exists>s'. compute (load_inputs s v g theta) = Inr s') \<and>
        (\<exists>s'. compute_partials (load_inputs s v g theta) = Inr s')"
    if "run cs s0 = Inr s" for cs s
  proof -
    have sh: "shaped N s" using s0 that by (rule reached_shaped)
    show ?thesis
      using compute_shaped [OF sh assms(2,3)] compute_partials_shaped [OF sh assms(2,3)]
      by blast
  qed
  with s0 show ?thesis by blast
qed

text \<open>An instance with two nodes, after one earlier evaluation at other inputs.\<close>

theorem evaluations_total_witness:
  "\<exists>s0 s s' s''. ode_setup (BrachistochroneODE 2) = Inr s0 \<and>
       run [Load [1, 2] 9 [pi, 0], Compute] s0 = Inr s \<and>
       compute (load_inputs s [5, 4] 3 [0, pi]) = Inr s' \<and>
       compute_partials (load_inputs s [5, 4] 3 [0, pi]) = Inr s''"
proof -
  from evaluations_total [of 2 "[5, 4]" "[0, pi]" 3]
  obtain s0 where s0: "ode_setup (BrachistochroneODE 2) = Inr s0"
    and t: "\<And>cs s. run cs s0 = Inr s \<Longrightarrow>
              (\<exists>s'. compute (load_inputs s [5, 4] 3 [0, pi]) = Inr s') \<and>
              (\<exists>s'. compute_partials (load_inputs s [5, 4] 3 [0, pi]) = Inr s')"
    by auto
  have sh: "shaped 2 s0" using s0 by (rule shaped_setup)
  have "\<exists>s. run [Load [1, 2] 9 [pi, 0], Compute] s0 = Inr s"
    using compute_shaped [OF sh, of "[1, 2]" "[pi, 0]" 9] by simp
  then obtain s where r: "run [Load [1, 2] 9 [pi, 0], Compute] s0 = Inr s" by blast
  from t [OF r] s0 r show ?thesis by blast
qed

text \<open>
  C9. Frame of the rate evaluation: a successful \<open>compute\<close> changes nothing but the output
  dictionary, and there only the entries \<open>xdot\<close>, \<open>ydot\<close> and \<open>vdot\<close>; the inputs (\<open>v\<close>,
  \<open>theta\<close>, \<open>g\<close>), the option \<open>num_nodes\<close>, the declared partials and the Jacobian values
  are as before the call.
\<close>

theorem compute_frame:
  assumes "compute s = Inr s'"
  shows "inputs s' = inputs s \<and> num_nodes s' = num_nodes s \<and>
         partials s' = partials s \<and> jacobian s' = jacobian s \<and>
         s' = s\<lparr>outputs := outputs s'\<rparr> \<and>
         (\<forall>k. k \<notin> {''xdot'', ''ydot'', ''vdot''} \<longrightarrow> outputs s' k = outputs s k)"
proof -
  from compute_steps [OF assms] obtain r1 r2 r3 s1 s2 where
    a: "set_output s ''vdot'' r1 = Inr s1" and b: "set_output s1 ''xdot'' r2 = Inr s2"
    and c: "set_output s2 ''ydot'' r3 = Inr s'" by blast
  from set_output_frame [OF a] obtain a1 where e1: "s1 = s\<lparr>outputs := (outputs s)(''vdot'' \<mapsto> a1)\<rparr>"
    by blast
  from set_output_frame [OF b] obtain a2 where e2: "s2 = s1\<lparr>outputs := (outputs s1)(''xdot'' \<mapsto> a2)\<rparr>"
    by blast
  from set_output_frame [OF c] obtain a3 where e3: "s' = s2\<lparr>outputs := (outputs s2)(''ydot'' \<mapsto> a3)\<rparr>"
    by blast
  show ?thesis by (simp add: e1 e2 e3)
qed

text \<open>An instance with two nodes, with Jacobian values from an earlier evaluation.\<close>

theorem compute_frame_witness:
  "\<exists>s0 s s'. ode_setup (BrachistochroneODE 2) = Inr s0 \<and>
       compute_partials (load_inputs s0 [5, 4] 3 [0, pi]) = Inr s \<and>
       compute s = Inr s' \<and>
       inputs s' = [''v'' \<mapsto> [5, 4], ''g'' \<mapsto> [3], ''theta'' \<mapsto> [0, pi]] \<and>
       num_nodes s' = 2 \<and> partials s' = partials s0 \<and> jacobian s' = jacobian s \<and>
       outputs s' ''v'' = None"
proof -
  obtain s0 where s0: "ode_setup (BrachistochroneODE 2) = Inr s0"
    and e0: "s0 = \<lparr>num_nodes = 2,
          inputs = [''v'' \<mapsto> replicate (nat 2) 0, ''g'' \<mapsto> [9.80665], ''theta'' \<mapsto> replicate (nat 2) 0],
          outputs = [''xdot'' \<mapsto> replicate (nat 2) 0, ''ydot'' \<mapsto> replicate (nat 2) 0,
                     ''vdot'' \<mapsto> replicate (nat 2) 0],
          partials = declared 2, jacobian = Map.empty\<rparr>"
    using ode_setup_ok [of 2] by simp
  have sh: "shaped 2 s0" using s0 by (rule shaped_setup)
  let ?s = "(load_inputs s0 [5, 4] 3 [0, pi])\<lparr>jacobian := partial_values [5, 4] 3 [0, pi]\<rparr>"
  have p: "compute_partials (load_inputs s0 [5, 4] 3 [0, pi]) = Inr ?s"
    using compute_partials_shaped [OF sh, of "[5, 4]" "[0, pi]" 3] by simp
  have sh': "shaped 2 (?s\<lparr>inputs := inputs s0\<rparr>)"
    using sh by (simp add: shaped_def load_inputs_def partial_values_def declared_def)
  have "compute (load_inputs (?s\<lparr>inputs := inputs s0\<rparr>) [5, 4] 3 [0, pi]) =
        Inr ((load_inputs (?s\<lparr>inputs := inputs s0\<rparr>) [5, 4] 3 [0, pi])\<lparr>outputs := rates [5, 4] 3 [0, pi]\<rparr>)"
    using compute_shaped [OF sh', of "[5, 4]" "[0, pi]" 3] by simp
  moreover have "load_inputs (?s\<lparr>inputs := inputs s0\<rparr>) [5, 4] 3 [0, pi] = ?s"
    by (simp add: load_inputs_def)
  ultimately obtain s' where c: "compute ?s = Inr s'" by simp
  from compute_frame [OF c]
  have "inputs s' = inputs ?s" "num_nodes s' = num_nodes ?s" "partials s' = partials ?s"
    "jacobian s' = jacobian ?s" "outputs s' ''v'' = outputs ?s ''v''"
    by simp_all
  then have "inputs s' = [''v'' \<mapsto> [5, 4], ''g'' \<mapsto> [3], ''theta'' \<mapsto> [0, pi]]"
    "num_nodes s' = 2" "partials s' = partials s0" "jacobian s' = jacobian ?s"
    "outputs s' ''v'' = None"
    by (simp_all add: load_inputs_def e0)
  with s0 p c show ?thesis by blast
qed

text \<open>
  C10. Speed consistency: after a setup for \<open>N\<close> nodes and any history of calls, the
  outputs of \<open>compute\<close> at inputs of length \<open>N\<close> satisfy
  \<open>xdot[i]^2 + ydot[i]^2 = v[i]^2\<close> at every node \<open>i\<close>.
\<close>

theorem speed_consistency:
  assumes "ode_setup (BrachistochroneODE N) = Inr s0" and "run cs s0 = Inr s"
    and "length v = nat N" and "length theta = nat N"
  shows "\<exists>s' xdot ydot.
           compute (load_inputs s v g theta) = Inr s' \<and>
           outputs s' ''xdot'' = Some xdot \<and> outputs s' ''ydot'' = Some ydot \<and>
           length xdot = nat N \<and> length ydot = nat N \<and>
           (\<forall>i < nat N. (xdot ! i)\<^sup>2 + (ydot ! i)\<^sup>2 = (v ! i)\<^sup>2)"
proof -
  have sh: "shaped N s" using assms(1,2) by (rule reached_shaped)
  let ?s' = "(load_inputs s v g theta)\<lparr>outputs := rates v g theta\<rparr>"
  let ?x = "map2 (\<lambda>a t. a * sin t) v theta"
  let ?y = "map2 (\<lambda>a t. - a * cos t) v theta"
  have c: "compute (load_inputs s v g theta) = Inr ?s'"
    using sh assms(3,4) by (rule compute_shaped)
  have o: "outputs ?s' ''xdot'' = Some ?x" "outputs ?s' ''ydot'' = Some ?y"
    by (simp_all add: rates_def)
  have l: "length ?x = nat N" "length ?y = nat N"
    using assms(3,4) by simp_all
  have "(?x ! i)\<^sup>2 + (?y ! i)\<^sup>2 = (v ! i)\<^sup>2" if "i < nat N" for i
  proof -
    have "(?x ! i)\<^sup>2 + (?y ! i)\<^sup>2 = (v ! i * sin (theta ! i))\<^sup>2 + (v ! i * cos (theta ! i))\<^sup>2"
      using that assms(3,4) by simp
    also have "\<dots> = (v ! i)\<^sup>2 * ((sin (theta ! i))\<^sup>2 + (cos (theta ! i))\<^sup>2)"
      by (simp only: power_mult_distrib distrib_left)
    finally show ?thesis by simp
  qed
  with c o l show ?thesis by blast
qed

text \<open>An instance with one node: \<open>v = [5]\<close>, \<open>theta = [pi]\<close>.\<close>

theorem speed_consistency_witness:
  "\<exists>s0 s' xdot ydot. ode_setup (BrachistochroneODE 1) = Inr s0 \<and>
       compute (load_inputs s0 [5] 3 [pi]) = Inr s' \<and>
       outputs s' ''xdot'' = Some xdot \<and> outputs s' ''ydot'' = Some ydot \<and>
       (xdot ! 0)\<^sup>2 + (ydot ! 0)\<^sup>2 = 25"
proof -
  obtain s0 where s0: "ode_setup (BrachistochroneODE 1) = Inr s0"
    using ode_setup_ok [of 1] by simp
  have r: "run [] s0 = Inr s0" by simp
  from speed_consistency [OF s0 r, of "[5]" "[pi]" 3]
  obtain s' xdot ydot where
    "compute (load_inputs s0 [5] 3 [pi]) = Inr s'"
    "outputs s' ''xdot'' = Some xdot" "outputs s' ''ydot'' = Some ydot"
    "(xdot ! 0)\<^sup>2 + (ydot ! 0)\<^sup>2 = 25"
    by auto
  with s0 show ?thesis by blast
qed

section \<open>Determinism of the evaluations\<close>

lemma bind_result_rel:
  assumes "rel_sum (=) A r1 r2" and "\<And>x y. A x y \<Longrightarrow> rel_sum (=) B (f x) (h y)"
  shows "rel_sum (=) B (bind_result r1 f) (bind_result r2 h)"
  using assms by (cases r1; cases r2) auto

lemma bind_result_rel_same:
  assumes "\<And>x. r = Inr x \<Longrightarrow> rel_sum (=) B (f x) (h x)"
  shows "rel_sum (=) B (bind_result r f) (bind_result r h)"
  using assms by (cases r) auto

lemma rel_sum_weaken:
  assumes "rel_sum (=) A r1 r2" and "\<And>x y. A x y \<Longrightarrow> B x y"
  shows "rel_sum (=) B r1 r2"
  using assms by (cases r1; cases r2) auto

lemma set_output_rel:
  assumes "\<forall>k. map_option length (outputs s k) = map_option length (outputs t k)"
    and "\<forall>k\<in>W. outputs s k = outputs t k"
  shows "rel_sum (=)
           (\<lambda>s' t'. (\<forall>k. map_option length (outputs s' k) = map_option length (outputs t' k)) \<and>
                    (\<forall>k\<in>insert name W. outputs s' k = outputs t' k))
           (set_output s name val) (set_output t name val)"
proof (cases "outputs s name")
  case None
  with assms(1) have "outputs t name = None"
    by (metis map_option_is_None)
  with None show ?thesis by (simp add: set_output_def getitem_def)
next
  case (Some old)
  with assms(1) obtain old' where t: "outputs t name = Some old'" and l: "length old' = length old"
    by (metis map_option_eq_Some option.simps(9))
  show ?thesis
  proof (cases "broadcast_to (length old) val")
    case (Inl e)
    with Some t l show ?thesis by (simp add: set_output_def getitem_def)
  next
    case (Inr a)
    with Some t l assms show ?thesis by (simp add: set_output_def getitem_def)
  qed
qed

lemma set_jacobian_rel:
  assumes "partials s = partials t" and "\<forall>k\<in>W. jacobian s k = jacobian t k"
  shows "rel_sum (=)
           (\<lambda>s' t'. partials s' = partials t' \<and> (\<forall>k\<in>insert key W. jacobian s' k = jacobian t' k))
           (set_jacobian s key val) (set_jacobian t key val)"
proof (cases "partials t key")
  case None
  with assms(1) show ?thesis by (simp add: set_jacobian_def getitem_def)
next
  case (Some rc)
  obtain rows cols where rc: "rc = (rows, cols)" by (cases rc)
  show ?thesis
  proof (cases "broadcast_to (length rows) val")
    case (Inl e)
    with Some rc assms(1) show ?thesis by (simp add: set_jacobian_def getitem_def)
  next
    case (Inr a)
    with Some rc assms show ?thesis by (simp add: set_jacobian_def getitem_def)
  qed
qed

lemma compute_rel:
  assumes i: "inputs t ''theta'' = inputs s ''theta''" "inputs t ''g'' = inputs s ''g''"
      "inputs t ''v'' = inputs s ''v''"
    and l: "\<forall>k. map_option length (outputs s k) = map_option length (outputs t k)"
    and w: "\<forall>k\<in>W. outputs s k = outputs t k"
  shows "rel_sum (=)
           (\<lambda>s' t'. \<forall>k\<in>insert ''ydot'' (insert ''xdot'' (insert ''vdot'' W)).
              outputs s' k = outputs t' k)
           (compute s) (compute t)"
proof -
  have gi: "getitem (inputs t) ''theta'' = getitem (inputs s) ''theta''"
    "getitem (inputs t) ''g'' = getitem (inputs s) ''g''"
    "getitem (inputs t) ''v'' = getitem (inputs s) ''v''"
    by (simp_all add: getitem_def i)
  show ?thesis
  unfolding compute_def Let_def gi
  apply (rule bind_result_rel_same)+
  apply (rule bind_result_rel [OF set_output_rel [OF l w]])
  apply (rule bind_result_rel_same)
  apply (erule conjE)
  apply (rule bind_result_rel [OF set_output_rel])
    apply assumption
   apply assumption
  apply (rule bind_result_rel_same)
  apply (erule conjE)
  apply (rule rel_sum_weaken [OF set_output_rel])
    apply assumption
   apply assumption
  apply simp
  done
qed


lemma compute_partials_rel:
  assumes i: "inputs t ''theta'' = inputs s ''theta''" "inputs t ''g'' = inputs s ''g''"
      "inputs t ''v'' = inputs s ''v''"
    and p: "partials s = partials t"
    and w: "\<forall>k\<in>W. jacobian s k = jacobian t k"
  shows "rel_sum (=)
           (\<lambda>s' t'. \<forall>k\<in>insert (''ydot'', ''theta'') (insert (''ydot'', ''v'')
                (insert (''xdot'', ''theta'') (insert (''xdot'', ''v'')
                (insert (''vdot'', ''theta'') (insert (''vdot'', ''g'') W))))).
              jacobian s' k = jacobian t' k)
           (compute_partials s) (compute_partials t)"
proof -
  have gi: "getitem (inputs t) ''theta'' = getitem (inputs s) ''theta''"
    "getitem (inputs t) ''g'' = getitem (inputs s) ''g''"
    "getitem (inputs t) ''v'' = getitem (inputs s) ''v''"
    by (simp_all add: getitem_def i)
  show ?thesis
    unfolding compute_partials_def Let_def gi
    apply (rule bind_result_rel_same)+
    apply (rule bind_result_rel [OF set_jacobian_rel [OF p w]])
    apply (rule bind_result_rel_same)
    apply (erule conjE)
    apply (rule bind_result_rel [OF set_jacobian_rel])
      apply assumption
     apply assumption
    apply (erule conjE)
    apply (rule bind_result_rel [OF set_jacobian_rel])
      apply assumption
     apply assumption
    apply (rule bind_result_rel_same)
    apply (erule conjE)
    apply (rule bind_result_rel [OF set_jacobian_rel])
      apply assumption
     apply assumption
    apply (erule conjE)
    apply (rule bind_result_rel [OF set_jacobian_rel])
      apply assumption
     apply assumption
    apply (rule bind_result_rel_same)
    apply (erule conjE)
    apply (rule rel_sum_weaken [OF set_jacobian_rel])
      apply assumption
     apply assumption
    apply simp
    done
qed

lemma rel_sum_outputs:
  assumes "rel_sum (=) (\<lambda>s' t'. outputs s' = outputs t') r1 r2"
  shows "map_sum id outputs r1 = map_sum id outputs r2"
  using assms by (cases r1; cases r2) auto

lemma rel_sum_jacobian:
  assumes "rel_sum (=) (\<lambda>s' t'. jacobian s' = jacobian t') r1 r2"
  shows "map_sum id jacobian r1 = map_sum id jacobian r2"
  using assms by (cases r1; cases r2) auto

lemma shaped_outputs_rel:
  assumes "shaped N s" "shaped N t"
  shows "\<forall>k. map_option length (outputs s k) = map_option length (outputs t k)"
    and "\<forall>k\<in>- {''xdot'', ''ydot'', ''vdot''}. outputs s k = outputs t k"
proof -
  from assms(1) obtain a b c where
    s: "outputs s = [''xdot'' \<mapsto> a, ''ydot'' \<mapsto> b, ''vdot'' \<mapsto> c]"
    and ls: "length a = nat N" "length b = nat N" "length c = nat N"
    by (auto simp: shaped_def)
  from assms(2) obtain a' b' c' where
    t: "outputs t = [''xdot'' \<mapsto> a', ''ydot'' \<mapsto> b', ''vdot'' \<mapsto> c']"
    and lt: "length a' = nat N" "length b' = nat N" "length c' = nat N"
    by (auto simp: shaped_def)
  show "\<forall>k. map_option length (outputs s k) = map_option length (outputs t k)"
    by (simp add: s t ls lt)
  show "\<forall>k\<in>- {''xdot'', ''ydot'', ''vdot''}. outputs s k = outputs t k"
    by (simp add: s t)
qed

lemma dom_declared:
  "dom (declared N) =
     {(''vdot'', ''g''), (''vdot'', ''theta''), (''xdot'', ''v''), (''xdot'', ''theta''),
      (''ydot'', ''v''), (''ydot'', ''theta'')}"
  by (auto simp: declared_def split: if_splits)

lemma shaped_jacobian_rel:
  assumes "shaped N s" "shaped N t"
  shows "partials s = partials t"
    and "\<forall>k\<in>- dom (declared N). jacobian s k = jacobian t k"
proof -
  show "partials s = partials t" using assms by (simp add: shaped_def)
  have "jacobian s k = None \<and> jacobian t k = None" if "k \<notin> dom (declared N)" for k
    using assms that by (auto simp: shaped_def)
  then show "\<forall>k\<in>- dom (declared N). jacobian s k = jacobian t k" by simp
qed

text \<open>
  C5. The evaluations are deterministic and stateless: whatever histories of calls led
  from the setup to the states \<open>s1\<close> and \<open>s2\<close>, evaluating at the same inputs \<open>v\<close>, \<open>g\<close>,
  \<open>theta\<close> gives the same result in both: \<open>compute\<close> raises the same exception or leaves
  the same outputs, and \<open>compute_partials\<close> raises the same exception or leaves the same
  Jacobian values.
\<close>

theorem evaluation_deterministic:
  assumes "ode_setup (BrachistochroneODE N) = Inr s0"
    and "run cs1 s0 = Inr s1" and "run cs2 s0 = Inr s2"
  shows "map_sum id outputs (compute (load_inputs s1 v g theta)) =
         map_sum id outputs (compute (load_inputs s2 v g theta)) \<and>
         map_sum id jacobian (compute_partials (load_inputs s1 v g theta)) =
         map_sum id jacobian (compute_partials (load_inputs s2 v g theta))"
proof -
  let ?t1 = "load_inputs s1 v g theta" and ?t2 = "load_inputs s2 v g theta"
  have sh: "shaped N ?t1" "shaped N ?t2"
    using assms by (auto intro: load_inputs_shaped reached_shaped)
  have i: "inputs ?t2 ''theta'' = inputs ?t1 ''theta''" "inputs ?t2 ''g'' = inputs ?t1 ''g''"
    "inputs ?t2 ''v'' = inputs ?t1 ''v''"
    by (simp_all add: load_inputs_def)
  have "rel_sum (=)
          (\<lambda>s' t'. \<forall>k\<in>insert ''ydot'' (insert ''xdot'' (insert ''vdot'' (- {''xdot'', ''ydot'', ''vdot''}))).
              outputs s' k = outputs t' k)
          (compute ?t1) (compute ?t2)"
    using i shaped_outputs_rel [OF sh] by (rule compute_rel)
  then have "rel_sum (=) (\<lambda>s' t'. outputs s' = outputs t') (compute ?t1) (compute ?t2)"
    by (rule rel_sum_weaken) (rule ext, blast)
  then have a: "map_sum id outputs (compute ?t1) = map_sum id outputs (compute ?t2)"
    by (rule rel_sum_outputs)
  have "rel_sum (=)
           (\<lambda>s' t'. \<forall>k\<in>insert (''ydot'', ''theta'') (insert (''ydot'', ''v'')
                (insert (''xdot'', ''theta'') (insert (''xdot'', ''v'')
                (insert (''vdot'', ''theta'') (insert (''vdot'', ''g'') (- dom (declared N))))))).
              jacobian s' k = jacobian t' k)
           (compute_partials ?t1) (compute_partials ?t2)"
    using i shaped_jacobian_rel [OF sh] by (rule compute_partials_rel)
  then have "rel_sum (=) (\<lambda>s' t'. jacobian s' = jacobian t') (compute_partials ?t1) (compute_partials ?t2)"
  proof (rule rel_sum_weaken)
    fix x y
    assume h: "\<forall>k\<in>insert (''ydot'', ''theta'') (insert (''ydot'', ''v'')
                (insert (''xdot'', ''theta'') (insert (''xdot'', ''v'')
                (insert (''vdot'', ''theta'') (insert (''vdot'', ''g'') (- dom (declared N))))))).
              jacobian x k = jacobian y k"
    show "jacobian x = jacobian y"
    proof
      fix k
      show "jacobian x k = jacobian y k"
      proof (cases "k \<in> dom (declared N)")
        case True
        then show ?thesis using h unfolding dom_declared by blast
      next
        case False
        then show ?thesis using h by simp
      qed
    qed
  qed
  then have b: "map_sum id jacobian (compute_partials ?t1) = map_sum id jacobian (compute_partials ?t2)"
    by (rule rel_sum_jacobian)
  from a b show ?thesis ..
qed

text \<open>
  An instance with one node: a fresh component and one that has already evaluated rates
  and partials at other inputs agree at \<open>v = [5]\<close>, \<open>g = 3\<close>, \<open>theta = [0]\<close>.
\<close>

theorem evaluation_deterministic_witness:
  "\<exists>s0 s2. ode_setup (BrachistochroneODE 1) = Inr s0 \<and>
      run [Load [1] 9 [pi], Compute, ComputePartials] s0 = Inr s2 \<and>
      map_sum id outputs (compute (load_inputs s2 [5] 3 [0])) =
        Inr [''xdot'' \<mapsto> [0], ''ydot'' \<mapsto> [- 5], ''vdot'' \<mapsto> [3]] \<and>
      map_sum id jacobian (compute_partials (load_inputs s2 [5] 3 [0])) =
        Inr [(''vdot'', ''g'') \<mapsto> [1], (''vdot'', ''theta'') \<mapsto> [0],
             (''xdot'', ''v'') \<mapsto> [0], (''xdot'', ''theta'') \<mapsto> [5],
             (''ydot'', ''v'') \<mapsto> [- 1], (''ydot'', ''theta'') \<mapsto> [0]]"
proof -
  obtain s0 where s0: "ode_setup (BrachistochroneODE 1) = Inr s0"
    using ode_setup_ok [of 1] by simp
  have sh: "shaped 1 s0" using s0 by (rule shaped_setup)
  have r1: "run [] s0 = Inr s0" by simp
  let ?a = "(load_inputs s0 [1] 9 [pi])\<lparr>outputs := rates [1] 9 [pi]\<rparr>"
  have c: "compute (load_inputs s0 [1] 9 [pi]) = Inr ?a"
    using compute_shaped [OF sh, of "[1]" "[pi]" 9] by simp
  have sha: "shaped 1 ?a"
    using load_inputs_shaped [OF sh] c by (rule compute_shaped_inv)
  have la: "load_inputs ?a [1] 9 [pi] = ?a"
    by (simp add: load_inputs_def)
  have "\<exists>s2. compute_partials ?a = Inr s2"
    using compute_partials_shaped [OF sha, of "[1]" "[pi]" 9] by (simp add: la)
  then obtain s2 where p: "compute_partials ?a = Inr s2" by blast
  have r2: "run [Load [1] 9 [pi], Compute, ComputePartials] s0 = Inr s2"
    by (simp add: c p)
  have o: "map_sum id outputs (compute (load_inputs s0 [5] 3 [0])) =
        Inr [''xdot'' \<mapsto> [0], ''ydot'' \<mapsto> [- 5], ''vdot'' \<mapsto> [3]]"
    using compute_shaped [OF sh, of "[5]" "[0]" 3] by (simp add: rates_def)
  have j: "map_sum id jacobian (compute_partials (load_inputs s0 [5] 3 [0])) =
        Inr [(''vdot'', ''g'') \<mapsto> [1], (''vdot'', ''theta'') \<mapsto> [0],
             (''xdot'', ''v'') \<mapsto> [0], (''xdot'', ''theta'') \<mapsto> [5],
             (''ydot'', ''v'') \<mapsto> [- 1], (''ydot'', ''theta'') \<mapsto> [0]]"
    using compute_partials_shaped [OF sh, of "[5]" "[0]" 3] by (simp add: partial_values_def)
  from evaluation_deterministic [OF s0 r1 r2, of "[5]" 3 "[0]"] o j s0 r2
  show ?thesis by (intro exI [of _ s0] exI [of _ s2]) simp
qed

section \<open>Exactness and sparsity of the Jacobian\<close>

lemma perturb_load_inputs:
  "perturb (load_inputs s v g theta) ''theta'' c x = load_inputs s v g (theta[nat c := x])"
  "perturb (load_inputs s v g theta) ''v'' c x = load_inputs s (v[nat c := x]) g theta"
  "perturb (load_inputs s v g theta) ''g'' 0 x = load_inputs s v x theta"
  by (simp_all add: perturb_def load_inputs_def fun_upd_twist)

lemma input_at_load_inputs:
  "k < length theta \<Longrightarrow> input_at (load_inputs s v g theta) ''theta'' (int k) = theta ! k"
  "k < length v \<Longrightarrow> input_at (load_inputs s v g theta) ''v'' (int k) = v ! k"
  "input_at (load_inputs s v g theta) ''g'' 0 = g"
  by (simp_all add: input_at_def load_inputs_def)

lemma output_at_compute:
  assumes "shaped N s" "length v = nat N" "length theta = nat N" "i < nat N"
  shows "output_at (compute (load_inputs s v g theta)) ''vdot'' i = g * cos (theta ! i)"
    and "output_at (compute (load_inputs s v g theta)) ''xdot'' i = v ! i * sin (theta ! i)"
    and "output_at (compute (load_inputs s v g theta)) ''ydot'' i = - v ! i * cos (theta ! i)"
  using assms(2-4) by (simp_all add: compute_shaped [OF assms(1-3)] output_at_def rates_def)

lemma jacobian_at_compute_partials:
  assumes "shaped N s" "length v = nat N" "length theta = nat N" "i < nat N"
  shows "jacobian_at (compute_partials (load_inputs s v g theta)) (''vdot'', ''g'') i = cos (theta ! i)"
    and "jacobian_at (compute_partials (load_inputs s v g theta)) (''vdot'', ''theta'') i = - g * sin (theta ! i)"
    and "jacobian_at (compute_partials (load_inputs s v g theta)) (''xdot'', ''v'') i = sin (theta ! i)"
    and "jacobian_at (compute_partials (load_inputs s v g theta)) (''xdot'', ''theta'') i = v ! i * cos (theta ! i)"
    and "jacobian_at (compute_partials (load_inputs s v g theta)) (''ydot'', ''v'') i = - cos (theta ! i)"
    and "jacobian_at (compute_partials (load_inputs s v g theta)) (''ydot'', ''theta'') i = v ! i * sin (theta ! i)"
  using assms(2-4)
  by (simp_all add: compute_partials_shaped [OF assms(1-3)] jacobian_at_def partial_values_def)

lemma declared_cases:
  assumes "declared N key = Some (rows, cols)"
  obtains "key = (''vdot'', ''g'')" "rows = np_arange N" "cols = replicate (nat N) 0"
  | "key \<in> {(''vdot'', ''theta''), (''xdot'', ''v''), (''xdot'', ''theta''),
        (''ydot'', ''v''), (''ydot'', ''theta'')}" "rows = np_arange N" "cols = np_arange N"
  using assms by (auto simp: declared_def split: if_splits)

lemma nth_np_arange [simp]: "k < nat N \<Longrightarrow> np_arange N ! k = int k"
  by (simp add: np_arange_def)

lemma entry_derivative:
  assumes sh: "shaped N s" and lv: "length v = nat N" and lt: "length theta = nat N"
    and k: "k < nat N"
  shows "((\<lambda>x. output_at (compute (perturb (load_inputs s v g theta) ''g'' 0 x)) ''vdot'' k)
            has_real_derivative cos (theta ! k)) (at g)"
    and "((\<lambda>x. output_at (compute (perturb (load_inputs s v g theta) ''theta'' (int k) x)) ''vdot'' k)
            has_real_derivative - g * sin (theta ! k)) (at (theta ! k))"
    and "((\<lambda>x. output_at (compute (perturb (load_inputs s v g theta) ''v'' (int k) x)) ''xdot'' k)
            has_real_derivative sin (theta ! k)) (at (v ! k))"
    and "((\<lambda>x. output_at (compute (perturb (load_inputs s v g theta) ''theta'' (int k) x)) ''xdot'' k)
            has_real_derivative v ! k * cos (theta ! k)) (at (theta ! k))"
    and "((\<lambda>x. output_at (compute (perturb (load_inputs s v g theta) ''v'' (int k) x)) ''ydot'' k)
            has_real_derivative - cos (theta ! k)) (at (v ! k))"
    and "((\<lambda>x. output_at (compute (perturb (load_inputs s v g theta) ''theta'' (int k) x)) ''ydot'' k)
            has_real_derivative v ! k * sin (theta ! k)) (at (theta ! k))"
proof -
  have lt': "length (theta[k := x]) = nat N" and lv': "length (v[k := x]) = nat N" for x
    using lv lt by simp_all
  have e1: "(\<lambda>x. output_at (compute (perturb (load_inputs s v g theta) ''g'' 0 x)) ''vdot'' k) =
            (\<lambda>x. x * cos (theta ! k))"
    by (simp add: perturb_load_inputs output_at_compute [OF sh lv lt k])
  have e2: "(\<lambda>x. output_at (compute (perturb (load_inputs s v g theta) ''theta'' (int k) x)) ''vdot'' k) =
            (\<lambda>x. g * cos x)"
    using k lt by (simp add: perturb_load_inputs output_at_compute [OF sh lv lt' k])
  have e3: "(\<lambda>x. output_at (compute (perturb (load_inputs s v g theta) ''v'' (int k) x)) ''xdot'' k) =
            (\<lambda>x. x * sin (theta ! k))"
    using k lv by (simp add: perturb_load_inputs output_at_compute [OF sh lv' lt k])
  have e4: "(\<lambda>x. output_at (compute (perturb (load_inputs s v g theta) ''theta'' (int k) x)) ''xdot'' k) =
            (\<lambda>x. v ! k * sin x)"
    using k lt by (simp add: perturb_load_inputs output_at_compute [OF sh lv lt' k])
  have e5: "(\<lambda>x. output_at (compute (perturb (load_inputs s v g theta) ''v'' (int k) x)) ''ydot'' k) =
            (\<lambda>x. - x * cos (theta ! k))"
    using k lv by (simp add: perturb_load_inputs output_at_compute [OF sh lv' lt k])
  have e6: "(\<lambda>x. output_at (compute (perturb (load_inputs s v g theta) ''theta'' (int k) x)) ''ydot'' k) =
            (\<lambda>x. - v ! k * cos x)"
    using k lt by (simp add: perturb_load_inputs output_at_compute [OF sh lv lt' k])
  show "((\<lambda>x. output_at (compute (perturb (load_inputs s v g theta) ''g'' 0 x)) ''vdot'' k)
            has_real_derivative cos (theta ! k)) (at g)"
    unfolding e1 by (auto intro!: derivative_eq_intros)
  show "((\<lambda>x. output_at (compute (perturb (load_inputs s v g theta) ''theta'' (int k) x)) ''vdot'' k)
            has_real_derivative - g * sin (theta ! k)) (at (theta ! k))"
    unfolding e2 by (auto intro!: derivative_eq_intros)
  show "((\<lambda>x. output_at (compute (perturb (load_inputs s v g theta) ''v'' (int k) x)) ''xdot'' k)
            has_real_derivative sin (theta ! k)) (at (v ! k))"
    unfolding e3 by (auto intro!: derivative_eq_intros)
  show "((\<lambda>x. output_at (compute (perturb (load_inputs s v g theta) ''theta'' (int k) x)) ''xdot'' k)
            has_real_derivative v ! k * cos (theta ! k)) (at (theta ! k))"
    unfolding e4 by (auto intro!: derivative_eq_intros)
  show "((\<lambda>x. output_at (compute (perturb (load_inputs s v g theta) ''v'' (int k) x)) ''ydot'' k)
            has_real_derivative - cos (theta ! k)) (at (v ! k))"
    unfolding e5 by (auto intro!: derivative_eq_intros)
  show "((\<lambda>x. output_at (compute (perturb (load_inputs s v g theta) ''theta'' (int k) x)) ''ydot'' k)
            has_real_derivative v ! k * sin (theta ! k)) (at (theta ! k))"
    unfolding e6 by (auto intro!: derivative_eq_intros)
qed


text \<open>
  C3. The Jacobian is exact over the reals: for every declared block (output \<open>of_name\<close>,
  input \<open>wrt\<close>) with declared index arrays \<open>rows\<close>, \<open>cols\<close>, entry \<open>k\<close> of the array that
  \<open>compute_partials\<close> fills is the derivative of the output \<open>of_name\<close> of \<open>compute\<close> at node
  \<open>rows[k]\<close> with respect to entry \<open>cols[k]\<close> of the input \<open>wrt\<close>, taken at the current
  inputs.
\<close>

theorem jacobian_exact:
  assumes "ode_setup (BrachistochroneODE N) = Inr s0" and "run cs s0 = Inr s"
    and "length v = nat N" and "length theta = nat N"
    and "partials s (of_name, wrt) = Some (rows, cols)" and "k < length rows"
  shows "((\<lambda>x. output_at (compute (perturb (load_inputs s v g theta) wrt (cols ! k) x))
                 of_name (nat (rows ! k)))
          has_real_derivative
            jacobian_at (compute_partials (load_inputs s v g theta)) (of_name, wrt) k)
          (at (input_at (load_inputs s v g theta) wrt (cols ! k)))"
proof -
  have sh: "shaped N s" using assms(1,2) by (rule reached_shaped)
  then have d: "declared N (of_name, wrt) = Some (rows, cols)"
    using assms(5) by (simp add: shaped_def)
  note lv = assms(3) and lt = assms(4)
  note J = jacobian_at_compute_partials [OF sh lv lt]
  note D = entry_derivative [OF sh lv lt]
  from d show ?thesis
  proof (cases rule: declared_cases)
    case 1
    then have k: "k < nat N" using assms(6) by simp
    with 1 have rc: "rows ! k = int k" "cols ! k = 0" by simp_all
    show ?thesis
      using D(1) [OF k, of g] 1(1) by (simp add: rc J(1) [OF k] input_at_load_inputs)
  next
    case 2
    then have k: "k < nat N" using assms(6) by simp
    with 2 have rc: "rows ! k = int k" "cols ! k = int k" by simp_all
    have kv: "k < length v" and kt: "k < length theta" using k lv lt by simp_all
    from 2(1) consider "of_name = ''vdot''" "wrt = ''theta''" | "of_name = ''xdot''" "wrt = ''v''"
      | "of_name = ''xdot''" "wrt = ''theta''" | "of_name = ''ydot''" "wrt = ''v''"
      | "of_name = ''ydot''" "wrt = ''theta''" by auto
    then show ?thesis
    proof cases
      case 1
      then show ?thesis
        using D(2) [OF k, of g] by (simp add: rc J(2) [OF k] input_at_load_inputs(1) [OF kt])
    next
      case 2
      then show ?thesis
        using D(3) [OF k, of g] by (simp add: rc J(3) [OF k] input_at_load_inputs(2) [OF kv])
    next
      case 3
      then show ?thesis
        using D(4) [OF k, of g] by (simp add: rc J(4) [OF k] input_at_load_inputs(1) [OF kt])
    next
      case 4
      then show ?thesis
        using D(5) [OF k, of g] by (simp add: rc J(5) [OF k] input_at_load_inputs(2) [OF kv])
    next
      case 5
      then show ?thesis
        using D(6) [OF k, of g] by (simp add: rc J(6) [OF k] input_at_load_inputs(1) [OF kt])
    qed
  qed
qed

text \<open>
  An instance with two nodes, \<open>v = [5, 4]\<close>, \<open>g = 3\<close>, \<open>theta = [0, pi]\<close>: entry 1 of the block
  of xdot by theta, which is \<open>4 * cos pi = -4\<close>.
\<close>

theorem jacobian_exact_witness:
  "\<exists>s0. ode_setup (BrachistochroneODE 2) = Inr s0 \<and>
      partials s0 (''xdot'', ''theta'') = Some ([0, 1], [0, 1]) \<and>
      ((\<lambda>x. output_at (compute (perturb (load_inputs s0 [5, 4] 3 [0, pi]) ''theta'' 1 x)) ''xdot'' 1)
         has_real_derivative - 4) (at pi)"
proof -
  obtain s0 where s0: "ode_setup (BrachistochroneODE 2) = Inr s0"
    using ode_setup_ok [of 2] by simp
  have sh: "shaped 2 s0" using s0 by (rule shaped_setup)
  have r: "run [] s0 = Inr s0" by simp
  have a2: "np_arange 2 = [0, 1]"
    by (simp add: np_arange_def numeral_2_eq_2)
  have p: "partials s0 (''xdot'', ''theta'') = Some ([0, 1], [0, 1])"
    using sh by (simp add: shaped_def declared_def a2)
  have j: "jacobian_at (compute_partials (load_inputs s0 [5, 4] 3 [0, pi])) (''xdot'', ''theta'') (Suc 0) = - 4"
    using jacobian_at_compute_partials(4) [OF sh, of "[5, 4]" "[0, pi]" "Suc 0" 3] by simp
  have i: "input_at (load_inputs s0 [5, 4] 3 [0, pi]) ''theta'' 1 = pi"
    by (simp add: input_at_def load_inputs_def)
  from jacobian_exact [OF s0 r _ _ p, where v = "[5, 4]" and theta = "[0, pi]" and k = 1 and g = 3]
  have "((\<lambda>x. output_at (compute (perturb (load_inputs s0 [5, 4] 3 [0, pi]) ''theta'' 1 x)) ''xdot'' 1)
         has_real_derivative - 4) (at pi)"
    by (simp add: j i)
  with s0 p show ?thesis by blast
qed

lemma cross_node_constant:
  assumes sh: "shaped N s" and lv: "length v = nat N" and lt: "length theta = nat N"
    and i: "i < nat N" and ij: "i \<noteq> j"
    and o: "of_name \<in> {''xdot'', ''ydot'', ''vdot''}" and w: "wrt \<in> {''v'', ''theta''}"
  shows "output_at (compute (perturb (load_inputs s v g theta) wrt (int j) y)) of_name i =
         output_at (compute (load_inputs s v g theta)) of_name i"
proof -
  have lt': "length (theta[j := y]) = nat N" and lv': "length (v[j := y]) = nat N"
    using lv lt by simp_all
  note A = output_at_compute [OF sh lv lt i]
  note B = output_at_compute [OF sh lv lt' i]
  note C = output_at_compute [OF sh lv' lt i]
  from w consider "wrt = ''v''" | "wrt = ''theta''" by auto
  then show ?thesis
  proof cases
    case 1
    with o ij show ?thesis by (auto simp: perturb_load_inputs A C)
  next
    case 2
    with o ij show ?thesis by (auto simp: perturb_load_inputs A B)
  qed
qed

text \<open>
  C4. The sparsity pattern is block-diagonal per node and fixed by the setup. The setup
  for \<open>N\<close> nodes declares exactly six blocks, each with \<open>N\<close> index pairs; pair \<open>k\<close> is row
  \<open>k\<close> with column \<open>k\<close>, except in the block of vdot by g, where it is row \<open>k\<close> with column
  0 (the shared scalar). No history of evaluations changes the declared pattern. And
  for distinct nodes \<open>i\<close> and \<open>j\<close>, the derivative of every output of \<open>compute\<close> at node \<open>i\<close>
  with respect to entry \<open>j\<close> of \<open>v\<close> or of \<open>theta\<close> is 0 everywhere.
\<close>

theorem jacobian_sparsity:
  assumes "ode_setup (BrachistochroneODE N) = Inr s0" and "run cs s0 = Inr s"
  shows "dom (partials s0) =
           {(''vdot'', ''g''), (''vdot'', ''theta''), (''xdot'', ''v''), (''xdot'', ''theta''),
            (''ydot'', ''v''), (''ydot'', ''theta'')} \<and>
         (\<forall>key rows cols. partials s0 key = Some (rows, cols) \<longrightarrow>
            length rows = nat N \<and> length cols = nat N \<and>
            (\<forall>k < nat N. rows ! k = int k \<and>
               cols ! k = (if key = (''vdot'', ''g'') then 0 else int k))) \<and>
         partials s = partials s0 \<and>
         (\<forall>of_name wrt i j v g theta x.
            of_name \<in> {''xdot'', ''ydot'', ''vdot''} \<and> wrt \<in> {''v'', ''theta''} \<and>
            i < nat N \<and> j < nat N \<and> i \<noteq> j \<and> length v = nat N \<and> length theta = nat N \<longrightarrow>
            ((\<lambda>y. output_at (compute (perturb (load_inputs s v g theta) wrt (int j) y)) of_name i)
               has_real_derivative 0) (at x))"
proof -
  have sh0: "shaped N s0" using assms(1) by (rule shaped_setup)
  have sh: "shaped N s" using assms by (rule reached_shaped)
  have p0: "partials s0 = declared N" using sh0 by (simp add: shaped_def)
  have p: "partials s = declared N" using sh by (simp add: shaped_def)
  have a: "dom (partials s0) =
           {(''vdot'', ''g''), (''vdot'', ''theta''), (''xdot'', ''v''), (''xdot'', ''theta''),
            (''ydot'', ''v''), (''ydot'', ''theta'')}"
    by (simp add: p0 dom_declared)
  have b: "length rows = nat N \<and> length cols = nat N \<and>
            (\<forall>k < nat N. rows ! k = int k \<and>
               cols ! k = (if key = (''vdot'', ''g'') then 0 else int k))"
    if "partials s0 key = Some (rows, cols)" for key rows cols
  proof -
    from that have "declared N key = Some (rows, cols)" by (simp add: p0)
    then show ?thesis by (cases rule: declared_cases) auto
  qed
  have c: "partials s = partials s0" by (simp add: p p0)
  have d: "((\<lambda>y. output_at (compute (perturb (load_inputs s v g theta) wrt (int j) y)) of_name i)
               has_real_derivative 0) (at x)"
    if "of_name \<in> {''xdot'', ''ydot'', ''vdot''} \<and> wrt \<in> {''v'', ''theta''} \<and>
            i < nat N \<and> j < nat N \<and> i \<noteq> j \<and> length v = nat N \<and> length theta = nat N"
    for of_name wrt i j v g theta x
  proof -
    from that have "(\<lambda>y. output_at (compute (perturb (load_inputs s v g theta) wrt (int j) y)) of_name i) =
       (\<lambda>y. output_at (compute (load_inputs s v g theta)) of_name i)"
      using cross_node_constant [OF sh, of v theta i j of_name wrt g] by auto
    then show ?thesis by simp
  qed
  show ?thesis
  proof (intro conjI allI impI)
    show "dom (partials s0) =
           {(''vdot'', ''g''), (''vdot'', ''theta''), (''xdot'', ''v''), (''xdot'', ''theta''),
            (''ydot'', ''v''), (''ydot'', ''theta'')}" by (rule a)
  next
    fix key rows cols assume h: "partials s0 key = Some (rows, cols)"
    from b [OF h] show "length rows = nat N" "length cols = nat N" by simp_all
    fix k assume "k < nat N"
    with b [OF h] show "rows ! k = int k"
      "cols ! k = (if key = (''vdot'', ''g'') then 0 else int k)" by simp_all
  next
    show "partials s = partials s0" by (rule c)
  next
    fix of_name wrt i j and v theta :: ndarray and g x :: real
    assume "of_name \<in> {''xdot'', ''ydot'', ''vdot''} \<and> wrt \<in> {''v'', ''theta''} \<and>
            i < nat N \<and> j < nat N \<and> i \<noteq> j \<and> length v = nat N \<and> length theta = nat N"
    then show "((\<lambda>y. output_at (compute (perturb (load_inputs s v g theta) wrt (int j) y)) of_name i)
               has_real_derivative 0) (at x)" by (rule d)
  qed
qed

text \<open>
  An instance with two nodes, after one evaluation of rates and partials: the declared
  block of vdot by g, and the derivative of xdot at node 0 by theta at node 1.
\<close>

theorem jacobian_sparsity_witness:
  "\<exists>s0 s. ode_setup (BrachistochroneODE 2) = Inr s0 \<and>
      run [Load [1, 2] 9 [pi, 0], Compute, ComputePartials] s0 = Inr s \<and>
      partials s (''vdot'', ''g'') = Some ([0, 1], [0, 0]) \<and>
      ((\<lambda>y. output_at (compute (perturb (load_inputs s [5, 4] 3 [0, pi]) ''theta'' 1 y)) ''xdot'' 0)
         has_real_derivative 0) (at pi)"
proof -
  obtain s0 where s0: "ode_setup (BrachistochroneODE 2) = Inr s0"
    using ode_setup_ok [of 2] by simp
  have sh: "shaped 2 s0" using s0 by (rule shaped_setup)
  let ?a = "(load_inputs s0 [1, 2] 9 [pi, 0])\<lparr>outputs := rates [1, 2] 9 [pi, 0]\<rparr>"
  have c: "compute (load_inputs s0 [1, 2] 9 [pi, 0]) = Inr ?a"
    using compute_shaped [OF sh, of "[1, 2]" "[pi, 0]" 9] by simp
  have sha: "shaped 2 ?a"
    using load_inputs_shaped [OF sh] c by (rule compute_shaped_inv)
  have la: "load_inputs ?a [1, 2] 9 [pi, 0] = ?a"
    by (simp add: load_inputs_def)
  have "\<exists>s. compute_partials ?a = Inr s"
    using compute_partials_shaped [OF sha, of "[1, 2]" "[pi, 0]" 9] by (simp add: la)
  then obtain s where p: "compute_partials ?a = Inr s" by blast
  have r: "run [Load [1, 2] 9 [pi, 0], Compute, ComputePartials] s0 = Inr s"
    by (simp add: c p)
  have a2: "np_arange 2 = [0, 1]"
    by (simp add: np_arange_def numeral_2_eq_2)
  have p0: "partials s0 (''vdot'', ''g'') = Some ([0, 1], [0, 0])"
    using sh by (simp add: shaped_def declared_def a2 numeral_2_eq_2)
  note t = jacobian_sparsity [OF s0 r]
  have e: "partials s = partials s0"
    by (rule t [THEN conjunct2, THEN conjunct2, THEN conjunct1])
  note d = t [THEN conjunct2, THEN conjunct2, THEN conjunct2, rule_format]
  have "((\<lambda>y. output_at (compute (perturb (load_inputs s [5, 4] 3 [0, pi]) ''theta'' (int 1) y)) ''xdot'' 0)
         has_real_derivative 0) (at pi)"
    by (rule d) simp
  then have "((\<lambda>y. output_at (compute (perturb (load_inputs s [5, 4] 3 [0, pi]) ''theta'' 1 y)) ''xdot'' 0)
         has_real_derivative 0) (at pi)"
    by simp
  with s0 r e p0 show ?thesis by (intro exI [of _ s0] exI [of _ s]) simp
qed

section \<open>Command-line options of the scripts\<close>

text \<open>
  C7. The paraboloid script takes one optional flag \<open>--algorithm\<close>: when it is absent the
  driver option \<open>algorithm\<close> is set to \<open>ip\<close>; a supplied value among \<open>ip\<close>, \<open>tr\<close>, \<open>mma\<close> is
  stored unchanged in the driver option \<open>algorithm\<close>, the rest of the driver being as it
  was made; any other supplied value is rejected by the parser and no driver is
  configured.
\<close>

theorem paraboloid_algorithm_choice:
  "paraboloid_min d None = Inr (d\<lparr>options := (options d)(''algorithm'' \<mapsto> ''ip'')\<rparr>) \<and>
   (x \<in> {''ip'', ''tr'', ''mma''} \<longrightarrow>
      paraboloid_min d (Some x) = Inr (d\<lparr>options := (options d)(''algorithm'' \<mapsto> x)\<rparr>)) \<and>
   (x \<notin> {''ip'', ''tr'', ''mma''} \<longrightarrow> paraboloid_min d (Some x) = Inl ArgumentError)"
  by (auto simp: paraboloid_min_def parse_arg_def)

text \<open>Two instances: \<open>--algorithm tr\<close> is stored, \<open>--algorithm slsqp\<close> is rejected.\<close>

theorem paraboloid_algorithm_choice_witness:
  "option_of (paraboloid_min empty_driver (Some ''tr'')) ''algorithm'' = Some ''tr'' \<and>
   paraboloid_min empty_driver (Some ''slsqp'') = Inl ArgumentError"
proof -
  have "paraboloid_min empty_driver (Some ''tr'') =
          Inr (empty_driver\<lparr>options := (options empty_driver)(''algorithm'' \<mapsto> ''tr'')\<rparr>)"
    using paraboloid_algorithm_choice [of empty_driver "''tr''"] by simp
  moreover have "paraboloid_min empty_driver (Some ''slsqp'') = Inl ArgumentError"
    using paraboloid_algorithm_choice [of empty_driver "''slsqp''"] by simp
  ultimately show ?thesis by (simp add: option_of_def)
qed

text \<open>
  C6, as stated, fails: with \<open>--optimizer IPOPT --algorithm mma\<close> the brachistochrone
  script sets the driver option \<open>optimizer\<close> to \<open>ParOpt\<close> and the setting \<open>algorithm\<close> to
  \<open>ip\<close>, not to the supplied strings.
\<close>

theorem brachistochrone_forwarding_counterexample:
  "option_of (brachistochrone_driver empty_driver (Some ''IPOPT'') (Some ''mma'')) ''optimizer''
     = Some ''ParOpt'' \<and>
   option_of (brachistochrone_driver empty_driver (Some ''IPOPT'') (Some ''mma'')) ''optimizer''
     \<noteq> Some ''IPOPT'' \<and>
   setting_of (brachistochrone_driver empty_driver (Some ''IPOPT'') (Some ''mma'')) ''algorithm''
     = Some (Str ''ip'') \<and>
   setting_of (brachistochrone_driver empty_driver (Some ''IPOPT'') (Some ''mma'')) ''algorithm''
     \<noteq> Some (Str ''mma'')"
  by (simp add: brachistochrone_driver_def parse_arg_def option_of_def setting_of_def
      empty_driver_def Let_def)

text \<open>
  C6, amended. The brachistochrone script always configures the driver, and the parsed
  values select among fixed strings: the option \<open>optimizer\<close> becomes \<open>SLSQP\<close> when
  \<open>--optimizer\<close> is exactly \<open>SLSQP\<close> and \<open>ParOpt\<close> for every other string, so it equals
  the supplied string exactly for \<open>SLSQP\<close> and \<open>ParOpt\<close>. When \<open>--optimizer\<close> is \<open>SLSQP\<close>
  the settings are left as they were. Otherwise the setting \<open>algorithm\<close> becomes \<open>tr\<close> when
  \<open>--algorithm\<close> is exactly \<open>tr\<close> and \<open>ip\<close> for every other string, so it equals the
  supplied string exactly for \<open>tr\<close> and \<open>ip\<close>. Absent flags stand for \<open>ParOpt\<close> and \<open>tr\<close>.
\<close>

theorem brachistochrone_driver_selection:
  "\<exists>d'. brachistochrone_driver d (Some optimizer) (Some algorithm) = Inr d' \<and>
      options d' ''optimizer'' = Some (if optimizer = ''SLSQP'' then ''SLSQP'' else ''ParOpt'') \<and>
      (options d' ''optimizer'' = Some optimizer \<longleftrightarrow> optimizer \<in> {''SLSQP'', ''ParOpt''}) \<and>
      (optimizer = ''SLSQP'' \<longrightarrow> opt_settings d' = opt_settings d) \<and>
      (optimizer \<noteq> ''SLSQP'' \<longrightarrow>
         opt_settings d' ''algorithm'' = Some (Str (if algorithm = ''tr'' then ''tr'' else ''ip'')) \<and>
         (opt_settings d' ''algorithm'' = Some (Str algorithm) \<longleftrightarrow> algorithm \<in> {''tr'', ''ip''})) \<and>
      brachistochrone_driver d None (Some algorithm) =
        brachistochrone_driver d (Some ''ParOpt'') (Some algorithm) \<and>
      brachistochrone_driver d (Some optimizer) None =
        brachistochrone_driver d (Some optimizer) (Some ''tr'')"
  by (auto simp: brachistochrone_driver_def parse_arg_def Let_def)

text \<open>
  Two instances: \<open>--optimizer ParOpt --algorithm ip\<close> sets both entries to the supplied
  strings, and \<open>--optimizer SLSQP --algorithm tr\<close> writes no setting \<open>algorithm\<close>.
\<close>

theorem brachistochrone_driver_selection_witness:
  "option_of (brachistochrone_driver empty_driver (Some ''ParOpt'') (Some ''ip'')) ''optimizer''
     = Some ''ParOpt'' \<and>
   setting_of (brachistochrone_driver empty_driver (Some ''ParOpt'') (Some ''ip'')) ''algorithm''
     = Some (Str ''ip'') \<and>
   option_of (brachistochrone_driver empty_driver (Some ''SLSQP'') (Some ''tr'')) ''optimizer''
     = Some ''SLSQP'' \<and>
   setting_of (brachistochrone_driver empty_driver (Some ''SLSQP'') (Some ''tr'')) ''algorithm''
     = None"
proof -
  from brachistochrone_driver_selection [of empty_driver "''ParOpt''" "''ip''"]
  obtain d1 where 1: "brachistochrone_driver empty_driver (Some ''ParOpt'') (Some ''ip'') = Inr d1"
    "options d1 ''optimizer'' = Some ''ParOpt''" "opt_settings d1 ''algorithm'' = Some (Str ''ip'')"
    by auto
  from brachistochrone_driver_selection [of empty_driver "''SLSQP''" "''tr''"]
  obtain d2 where 2: "brachistochrone_driver empty_driver (Some ''SLSQP'') (Some ''tr'') = Inr d2"
    "options d2 ''optimizer'' = Some ''SLSQP''" "opt_settings d2 = opt_settings empty_driver"
    by auto
  from 1 2 show ?thesis by (simp add: option_of_def setting_of_def empty_driver_def)
qed

end
